theory Spec2Isabelle
  imports Main
begin

section \<open>The command-line client: cliclient/cmd/root.go\<close>

subsection \<open>Environment and library results\<close>

text \<open>
  The process environment maps variable names to values.  Go's \<^verbatim>\<open>os.Getenv\<close> returns the
  empty string for a variable that is not set, so an unset variable and one set to the
  empty string cannot be told apart by the program.
\<close>

type_synonym environ = "string \<rightharpoonup> string"

definition Getenv :: "environ \<Rightarrow> string \<Rightarrow> string" where
  "Getenv env k = (case env k of None \<Rightarrow> [] | Some v \<Rightarrow> v)"

text \<open>
  A Go function returning \<^verbatim>\<open>(value, error)\<close> is a pair whose second component is
  \<open>None\<close> for \<^verbatim>\<open>nil\<close>.  The value is kept next to the error because root.go assigns
  it with \<^verbatim>\<open>v, _ = f(s)\<close>, whatever the error is.
\<close>

type_synonym 'a go_result = "'a \<times> string option"

text \<open>
  \<^verbatim>\<open>strings.Split(s, ",")\<close>, the only way root.go calls it: the pieces between the
  separators, in order; a string without a separator is its own single piece.
\<close>

fun Split :: "string \<Rightarrow> char \<Rightarrow> string list" where
  "Split [] sep = [[]]"
| "Split (c # cs) sep =
     (if c = sep then [] # Split cs sep
      else (case Split cs sep of [] \<Rightarrow> [[c]] | p # ps \<Rightarrow> (c # p) # ps))"

text \<open>Joining pieces with a separator, the inverse the claim about splitting is read against.\<close>

fun Join :: "string list \<Rightarrow> char \<Rightarrow> string" where
  "Join [] sep = []"
| "Join [p] sep = p"
| "Join (p # q # ps) sep = p @ sep # Join (q # ps) sep"

subsection \<open>client.Config and the package variables\<close>

text \<open>
  The fields of \<^verbatim>\<open>client.Config\<close> that root.go reads or writes.  \<^verbatim>\<open>time.Duration\<close> is a
  count of nanoseconds; Go's \<^verbatim>\<open>int\<close> values are the ones the library parsers hand back.
\<close>

record Config =
  URL :: string
  UseAgent :: bool
  Timeout :: int
  Retries :: int
  Debug :: bool
  Insecure :: bool
  Quiet :: bool
  LoginAuthEndpoints :: "string list"
  IncludePrincipals :: string
  ExcludePrincipals :: string
  CertLifetime :: int
  GenerateKeypairType :: string
  GenerateKeypairSize :: int

definition Second :: int where
  "Second = 1000000000"

text \<open>The addresses root.go passes to the flag library, one datatype per pointed-to type.\<close>

datatype string_ptr =
  P_URL | P_logLevel | P_IncludePrincipals | P_ExcludePrincipals | P_GenerateKeypairType

datatype duration_ptr = P_Timeout | P_CertLifetime

datatype int_ptr = P_Retries | P_GenerateKeypairSize

datatype bool_ptr = P_Debug | P_Insecure | P_Quiet

datatype slice_ptr = P_LoginAuthEndpoints

datatype flag_binding =
  StringB string_ptr
| DurationB duration_ptr
| IntB int_ptr
| BoolB bool_ptr
| StringSliceB slice_ptr

datatype flag_value =
  StringV string
| DurationV int
| IntV int
| BoolV bool
| StringSliceV "string list"

record flag =
  Name :: string
  Shorthand :: string
  DefValue :: flag_value
  Value :: flag_binding

text \<open>
  The state of package \<^verbatim>\<open>cmd\<close>: the variables \<^verbatim>\<open>ClientConfig\<close> and \<^verbatim>\<open>logLevel\<close>, the
  persistent flag set of \<^verbatim>\<open>RootCmd\<close>, the initialisers registered with cobra, the default
  level of the logging package, and what was written to the two output streams.
\<close>

record root =
  ClientConfig :: Config
  logLevel :: string
  PersistentFlags :: "flag list"
  initializers :: "string list"
  DefaultLevel :: string
  stdout :: "string list"
  stderr :: "string list"

text \<open>The package-level variable initialisers (root.go lines 15 to 28).\<close>

definition ClientConfig0 :: Config where
  "ClientConfig0 =
     \<lparr> URL = [], UseAgent = True, Timeout = 2 * Second, Retries = 3,
       Debug = False, Insecure = False, Quiet = False, LoginAuthEndpoints = [],
       IncludePrincipals = [], ExcludePrincipals = [], CertLifetime = 0,
       GenerateKeypairType = ''rsa'', GenerateKeypairSize = 2048 \<rparr>"

definition root0 :: root where
  "root0 =
     \<lparr> ClientConfig = ClientConfig0, logLevel = ''info'', PersistentFlags = [],
       initializers = [], DefaultLevel = [], stdout = [], stderr = [] \<rparr>"

subsection \<open>Stores through the flag pointers\<close>

fun store_string :: "string_ptr \<Rightarrow> string \<Rightarrow> root \<Rightarrow> root" where
  "store_string P_URL v r = r\<lparr>ClientConfig := (ClientConfig r)\<lparr>URL := v\<rparr>\<rparr>"
| "store_string P_logLevel v r = r\<lparr>logLevel := v\<rparr>"
| "store_string P_IncludePrincipals v r =
     r\<lparr>ClientConfig := (ClientConfig r)\<lparr>IncludePrincipals := v\<rparr>\<rparr>"
| "store_string P_ExcludePrincipals v r =
     r\<lparr>ClientConfig := (ClientConfig r)\<lparr>ExcludePrincipals := v\<rparr>\<rparr>"
| "store_string P_GenerateKeypairType v r =
     r\<lparr>ClientConfig := (ClientConfig r)\<lparr>GenerateKeypairType := v\<rparr>\<rparr>"

fun store_duration :: "duration_ptr \<Rightarrow> int \<Rightarrow> root \<Rightarrow> root" where
  "store_duration P_Timeout v r = r\<lparr>ClientConfig := (ClientConfig r)\<lparr>Timeout := v\<rparr>\<rparr>"
| "store_duration P_CertLifetime v r =
     r\<lparr>ClientConfig := (ClientConfig r)\<lparr>CertLifetime := v\<rparr>\<rparr>"

fun store_int :: "int_ptr \<Rightarrow> int \<Rightarrow> root \<Rightarrow> root" where
  "store_int P_Retries v r = r\<lparr>ClientConfig := (ClientConfig r)\<lparr>Retries := v\<rparr>\<rparr>"
| "store_int P_GenerateKeypairSize v r =
     r\<lparr>ClientConfig := (ClientConfig r)\<lparr>GenerateKeypairSize := v\<rparr>\<rparr>"

fun store_bool :: "bool_ptr \<Rightarrow> bool \<Rightarrow> root \<Rightarrow> root" where
  "store_bool P_Debug v r = r\<lparr>ClientConfig := (ClientConfig r)\<lparr>Debug := v\<rparr>\<rparr>"
| "store_bool P_Insecure v r = r\<lparr>ClientConfig := (ClientConfig r)\<lparr>Insecure := v\<rparr>\<rparr>"
| "store_bool P_Quiet v r = r\<lparr>ClientConfig := (ClientConfig r)\<lparr>Quiet := v\<rparr>\<rparr>"

fun store_slice :: "slice_ptr \<Rightarrow> string list \<Rightarrow> root \<Rightarrow> root" where
  "store_slice P_LoginAuthEndpoints v r =
     r\<lparr>ClientConfig := (ClientConfig r)\<lparr>LoginAuthEndpoints := v\<rparr>\<rparr>"

subsection \<open>Flag registration\<close>

text \<open>
  The flag library's \<^verbatim>\<open>XxxVar(p, name, value, usage)\<close> and \<^verbatim>\<open>XxxVarP(p, name, shorthand,
  value, usage)\<close>: the default is stored through \<^verbatim>\<open>p\<close> at once, and the flag is added
  to the set with that default.  The usage text has no effect and is left out.
\<close>

definition AddFlag :: "flag \<Rightarrow> root \<Rightarrow> root" where
  "AddFlag f r = r\<lparr>PersistentFlags := PersistentFlags r @ [f]\<rparr>"

definition StringVarP :: "string_ptr \<Rightarrow> string \<Rightarrow> string \<Rightarrow> string \<Rightarrow> root \<Rightarrow> root" where
  "StringVarP p n sh v r =
     AddFlag \<lparr>Name = n, Shorthand = sh, DefValue = StringV v, Value = StringB p\<rparr>
       (store_string p v r)"

definition StringVar :: "string_ptr \<Rightarrow> string \<Rightarrow> string \<Rightarrow> root \<Rightarrow> root" where
  "StringVar p n v r = StringVarP p n [] v r"

definition DurationVarP :: "duration_ptr \<Rightarrow> string \<Rightarrow> string \<Rightarrow> int \<Rightarrow> root \<Rightarrow> root" where
  "DurationVarP p n sh v r =
     AddFlag \<lparr>Name = n, Shorthand = sh, DefValue = DurationV v, Value = DurationB p\<rparr>
       (store_duration p v r)"

definition DurationVar :: "duration_ptr \<Rightarrow> string \<Rightarrow> int \<Rightarrow> root \<Rightarrow> root" where
  "DurationVar p n v r = DurationVarP p n [] v r"

definition IntVarP :: "int_ptr \<Rightarrow> string \<Rightarrow> string \<Rightarrow> int \<Rightarrow> root \<Rightarrow> root" where
  "IntVarP p n sh v r =
     AddFlag \<lparr>Name = n, Shorthand = sh, DefValue = IntV v, Value = IntB p\<rparr>
       (store_int p v r)"

definition IntVar :: "int_ptr \<Rightarrow> string \<Rightarrow> int \<Rightarrow> root \<Rightarrow> root" where
  "IntVar p n v r = IntVarP p n [] v r"

definition BoolVarP :: "bool_ptr \<Rightarrow> string \<Rightarrow> string \<Rightarrow> bool \<Rightarrow> root \<Rightarrow> root" where
  "BoolVarP p n sh v r =
     AddFlag \<lparr>Name = n, Shorthand = sh, DefValue = BoolV v, Value = BoolB p\<rparr>
       (store_bool p v r)"

definition BoolVar :: "bool_ptr \<Rightarrow> string \<Rightarrow> bool \<Rightarrow> root \<Rightarrow> root" where
  "BoolVar p n v r = BoolVarP p n [] v r"

definition StringSliceVarP ::
  "slice_ptr \<Rightarrow> string \<Rightarrow> string \<Rightarrow> string list \<Rightarrow> root \<Rightarrow> root" where
  "StringSliceVarP p n sh v r =
     AddFlag \<lparr>Name = n, Shorthand = sh, DefValue = StringSliceV v, Value = StringSliceB p\<rparr>
       (store_slice p v r)"

definition OnInitialize :: "string \<Rightarrow> root \<Rightarrow> root" where
  "OnInitialize f r = r\<lparr>initializers := initializers r @ [f]\<rparr>"

subsection \<open>Collaborators outside the sources\<close>

text \<open>
  The Go library functions and the two collaborators root.go calls are parameters of the
  model: \<^verbatim>\<open>time.ParseDuration\<close>, \<^verbatim>\<open>strconv.Atoi\<close>, \<^verbatim>\<open>strconv.ParseInt(s, 10, 0)\<close> and
  \<^verbatim>\<open>strings.ToLower\<close>; \<^verbatim>\<open>logging.Setup\<close>, which reads the logging defaults and returns an
  error or \<^verbatim>\<open>nil\<close>; and cobra's \<^verbatim>\<open>ParseFlags\<close>, which takes the argument vector, may
  store through the flag pointers, and returns an error or \<^verbatim>\<open>nil\<close>.
\<close>

record extern =
  ParseDuration :: "string \<Rightarrow> int go_result"
  Atoi :: "string \<Rightarrow> int go_result"
  ParseInt :: "string \<Rightarrow> int go_result"
  ToLower :: "string \<Rightarrow> string"
  Setup :: "string \<Rightarrow> string option"
  ParseFlags :: "string list \<Rightarrow> root \<Rightarrow> root go_result"

subsection \<open>init\<close>

text \<open>
  The body of \<^verbatim>\<open>init\<close> (root.go lines 65 to 205) is a sequence of thirteen blocks, one per
  flag, each reading one environment variable and registering one flag.  Each block is a
  function on the package state; \<open>init\<close> runs them in the order of the source.
\<close>

definition init_url :: "environ \<Rightarrow> root \<Rightarrow> root" where
  "init_url env r = StringVar P_URL ''url'' (Getenv env ''SSH_INSCRIBE_URL'') r"

definition init_timeout :: "extern \<Rightarrow> environ \<Rightarrow> root \<Rightarrow> root" where
  "init_timeout lib env r =
    (let defTimeout = Timeout (ClientConfig r);
         expire = Getenv env ''SSH_INSCRIBE_TIMEOUT'';
         defTimeout = (if expire \<noteq> [] then fst (ParseDuration lib expire) else defTimeout)
     in DurationVar P_Timeout ''timeout'' defTimeout r)"

definition init_retries :: "extern \<Rightarrow> environ \<Rightarrow> root \<Rightarrow> root" where
  "init_retries lib env r =
    (let retries = Retries (ClientConfig r);
         retries = (if Getenv env ''SSH_INSCRIBE_RETRIES'' \<noteq> []
                    then fst (Atoi lib (Getenv env ''SSH_INSCRIBE_RETRIES'')) else retries)
     in IntVar P_Retries ''retries'' retries r)"

definition init_debug :: "environ \<Rightarrow> root \<Rightarrow> root" where
  "init_debug env r0 =
    (let r = (if Getenv env ''SSH_INSCRIBE_DEBUG'' \<noteq> []
              then r0\<lparr>ClientConfig := (ClientConfig r0)\<lparr>Debug := True\<rparr>\<rparr> else r0)
     in BoolVar P_Debug ''debug'' (Debug (ClientConfig r)) r)"

definition init_insecure :: "environ \<Rightarrow> root \<Rightarrow> root" where
  "init_insecure env r0 =
    (let r = (if Getenv env ''SSH_INSCRIBE_INSECURE'' \<noteq> []
              then r0\<lparr>ClientConfig := (ClientConfig r0)\<lparr>Insecure := True\<rparr>\<rparr> else r0)
     in BoolVar P_Insecure ''insecure'' (Insecure (ClientConfig r)) r)"

definition init_loglevel :: "environ \<Rightarrow> root \<Rightarrow> root" where
  "init_loglevel env r0 =
    (let r = (if Getenv env ''SSH_INSCRIBE_LOGLEVEL'' \<noteq> []
              then r0\<lparr>logLevel := Getenv env ''SSH_INSCRIBE_LOGLEVEL''\<rparr> else r0)
     in StringVar P_logLevel ''loglevel'' (logLevel r) r)"

definition init_quiet :: "environ \<Rightarrow> root \<Rightarrow> root" where
  "init_quiet env r0 =
    (let r = (if Getenv env ''SSH_INSCRIBE_QUIET'' \<noteq> []
              then r0\<lparr>ClientConfig := (ClientConfig r0)\<lparr>Quiet := True\<rparr>\<rparr> else r0)
     in BoolVarP P_Quiet ''quiet'' ''q'' (Quiet (ClientConfig r)) r)"

definition init_login :: "environ \<Rightarrow> root \<Rightarrow> root" where
  "init_login env r =
    (let defLoginAuthEndpoints = [];
         logins = Getenv env ''SSH_INSCRIBE_LOGIN_AUTH_ENDPOINTS'';
         defLoginAuthEndpoints =
           (if logins \<noteq> [] then Split logins CHR '','' else defLoginAuthEndpoints)
     in StringSliceVarP P_LoginAuthEndpoints ''login'' ''l'' defLoginAuthEndpoints r)"

definition init_include :: "environ \<Rightarrow> root \<Rightarrow> root" where
  "init_include env r =
    (let defIncludePrincipals = [];
         s = Getenv env ''SSH_INSCRIBE_INCLUDE_PRINCIPALS'';
         defIncludePrincipals = (if s \<noteq> [] then s else defIncludePrincipals)
     in StringVar P_IncludePrincipals ''include'' defIncludePrincipals r)"

definition init_exclude :: "environ \<Rightarrow> root \<Rightarrow> root" where
  "init_exclude env r =
    (let defExcludePrincipals = [];
         s = Getenv env ''SSH_INSCRIBE_EXCLUDE_PRINCIPALS'';
         defExcludePrincipals = (if s \<noteq> [] then s else defExcludePrincipals)
     in StringVar P_ExcludePrincipals ''exclude'' defExcludePrincipals r)"

definition init_expire :: "extern \<Rightarrow> environ \<Rightarrow> root \<Rightarrow> root" where
  "init_expire lib env r =
    (let defExpire = 0;
         expire = Getenv env ''SSH_INSCRIBE_EXPIRE'';
         defExpire = (if expire \<noteq> [] then fst (ParseDuration lib expire) else defExpire)
     in DurationVarP P_CertLifetime ''expire'' ''e'' defExpire r)"

definition init_keytype :: "environ \<Rightarrow> root \<Rightarrow> root" where
  "init_keytype env r0 =
    (let kt = Getenv env ''SSH_INSCRIBE_GENKEY_TYPE'';
         r = (if kt \<noteq> []
              then r0\<lparr>ClientConfig := (ClientConfig r0)\<lparr>GenerateKeypairType := kt\<rparr>\<rparr> else r0)
     in StringVarP P_GenerateKeypairType ''keytype'' ''t''
          (GenerateKeypairType (ClientConfig r)) r)"

definition init_keysize :: "extern \<Rightarrow> environ \<Rightarrow> root \<Rightarrow> root" where
  "init_keysize lib env r0 =
    (let ks = Getenv env ''SSH_INSCRIBE_GENKEY_SIZE'';
         r = (if ks \<noteq> []
              then r0\<lparr>ClientConfig :=
                     (ClientConfig r0)\<lparr>GenerateKeypairSize := fst (ParseInt lib ks)\<rparr>\<rparr>
              else r0)
     in IntVarP P_GenerateKeypairSize ''keysize'' ''b''
          (GenerateKeypairSize (ClientConfig r)) r)"

definition init :: "extern \<Rightarrow> environ \<Rightarrow> root \<Rightarrow> root" where
  "init lib env r0 =
    (let r = OnInitialize ''rootInit'' r0;
         r = init_url env r;
         r = init_timeout lib env r;
         r = init_retries lib env r;
         r = init_debug env r;
         r = init_insecure env r;
         r = init_loglevel env r;
         r = init_quiet env r;
         r = init_login env r;
         r = init_include env r;
         r = init_exclude env r;
         r = init_expire lib env r;
         r = init_keytype env r;
         r = init_keysize lib env r
     in r)"

text \<open>The state of the package once its variables are initialised and \<open>init\<close> has run.\<close>

definition started :: "extern \<Rightarrow> environ \<Rightarrow> root" where
  "started lib env = init lib env root0"

subsection \<open>rootInit and ignoreFlagsAfter\<close>

text \<open>
  How a run of the start-up code ends: it goes on with a new state, the process exits with
  a code (\<^verbatim>\<open>os.Exit\<close>), or the Go runtime panics.
\<close>

datatype 'a outcome = Continue 'a | Exit int 'a | Panic string

definition rootInit :: "extern \<Rightarrow> root \<Rightarrow> root outcome" where
  "rootInit lib r0 =
    (let r = r0\<lparr>DefaultLevel := logLevel r0\<rparr>
     in case Setup lib (DefaultLevel r) of
          Some err \<Rightarrow> Exit 1 (r\<lparr>stderr := stderr r @ [err]\<rparr>)
        | None \<Rightarrow> Continue r)"

text \<open>
  The map \<^verbatim>\<open>ignoreFlags\<close> built from the names; reading a Go map at a missing key gives
  the zero value \<^verbatim>\<open>false\<close>.
\<close>

fun mkIgnoreFlags :: "string list \<Rightarrow> (string \<rightharpoonup> bool) \<Rightarrow> (string \<rightharpoonup> bool)" where
  "mkIgnoreFlags [] m = m"
| "mkIgnoreFlags (v # vs) m = mkIgnoreFlags vs (m(v \<mapsto> True))"

definition index_bool :: "(string \<rightharpoonup> bool) \<Rightarrow> string \<Rightarrow> bool" where
  "index_bool m k = (case m k of None \<Rightarrow> False | Some b \<Rightarrow> b)"

text \<open>
  The loop over \<^verbatim>\<open>os.Args\<close>: \<open>i\<close> is the index of the next argument and \<open>cmdIndex\<close> the
  index recorded so far.
\<close>

fun cmdIndexLoop ::
  "extern \<Rightarrow> (string \<rightharpoonup> bool) \<Rightarrow> nat \<Rightarrow> string list \<Rightarrow> nat \<Rightarrow> nat" where
  "cmdIndexLoop lib ignoreFlags i [] cmdIndex = cmdIndex"
| "cmdIndexLoop lib ignoreFlags i (arg # rest) cmdIndex =
     cmdIndexLoop lib ignoreFlags (Suc i) rest
       (if index_bool ignoreFlags (ToLower lib arg) then i else cmdIndex)"

definition cmdIndexOf :: "extern \<Rightarrow> string list \<Rightarrow> string list \<Rightarrow> nat" where
  "cmdIndexOf lib cmds osArgs =
     cmdIndexLoop lib (mkIgnoreFlags cmds Map.empty) 0 osArgs 0"

text \<open>
  The vector handed to the parser.  The slice expression \<^verbatim>\<open>os.Args[:cmdIndex+1]\<close> panics
  when \<^verbatim>\<open>os.Args\<close> is empty, which is the only way \<open>cmdIndex + 1\<close> can exceed its length.
\<close>

definition injectArgs :: "extern \<Rightarrow> string list \<Rightarrow> string list \<Rightarrow> string list option" where
  "injectArgs lib cmds osArgs =
    (let cmdIndex = cmdIndexOf lib cmds osArgs
     in if length osArgs < cmdIndex + 1 then None
        else Some (take (cmdIndex + 1) osArgs @ [''--''] @ drop (cmdIndex + 1) osArgs))"

definition ignoreFlagsAfter :: "extern \<Rightarrow> string list \<Rightarrow> string list \<Rightarrow> root \<Rightarrow> root outcome" where
  "ignoreFlagsAfter lib cmds osArgs r =
    (case injectArgs lib cmds osArgs of
       None \<Rightarrow> Panic ''slice bounds out of range''
     | Some args \<Rightarrow>
        (case ParseFlags lib args r of
           (r', Some err) \<Rightarrow> Exit 1 (r'\<lparr>stdout := stdout r' @ [err]\<rparr>)
         | (r', None) \<Rightarrow> rootInit lib r'))"

subsection \<open>Flags given on the command line\<close>

text \<open>
  What a flag given on the command line does, once the library has found it by name and
  converted its argument to the flag's type: the value is stored through the pointer the
  flag was registered with.  A name that is not registered, or a value of another type,
  is an error.  A flag that is not given stores nothing.
\<close>

fun Set :: "flag_binding \<Rightarrow> flag_value \<Rightarrow> root \<Rightarrow> string + root" where
  "Set (StringB p) (StringV v) r = Inr (store_string p v r)"
| "Set (DurationB p) (DurationV v) r = Inr (store_duration p v r)"
| "Set (IntB p) (IntV v) r = Inr (store_int p v r)"
| "Set (BoolB p) (BoolV v) r = Inr (store_bool p v r)"
| "Set (StringSliceB p) (StringSliceV v) r = Inr (store_slice p v r)"
| "Set _ _ r = Inl ''invalid argument''"

definition Lookup :: "flag list \<Rightarrow> string \<Rightarrow> flag option" where
  "Lookup fs n = find (\<lambda>f. Name f = n) fs"

fun SetFlags :: "(string \<times> flag_value) list \<Rightarrow> root \<Rightarrow> string + root" where
  "SetFlags [] r = Inr r"
| "SetFlags ((n, v) # given) r =
     (case Lookup (PersistentFlags r) n of
        None \<Rightarrow> Inl ''unknown flag''
      | Some f \<Rightarrow>
          (case Set (Value f) v r of
             Inl err \<Rightarrow> Inl err
           | Inr r' \<Rightarrow> SetFlags given r'))"

text \<open>Reading the variable a flag is bound to: the current value of the flag.\<close>

fun load_string :: "string_ptr \<Rightarrow> root \<Rightarrow> string" where
  "load_string P_URL r = URL (ClientConfig r)"
| "load_string P_logLevel r = logLevel r"
| "load_string P_IncludePrincipals r = IncludePrincipals (ClientConfig r)"
| "load_string P_ExcludePrincipals r = ExcludePrincipals (ClientConfig r)"
| "load_string P_GenerateKeypairType r = GenerateKeypairType (ClientConfig r)"

fun load_duration :: "duration_ptr \<Rightarrow> root \<Rightarrow> int" where
  "load_duration P_Timeout r = Timeout (ClientConfig r)"
| "load_duration P_CertLifetime r = CertLifetime (ClientConfig r)"

fun load_int :: "int_ptr \<Rightarrow> root \<Rightarrow> int" where
  "load_int P_Retries r = Retries (ClientConfig r)"
| "load_int P_GenerateKeypairSize r = GenerateKeypairSize (ClientConfig r)"

fun load_bool :: "bool_ptr \<Rightarrow> root \<Rightarrow> bool" where
  "load_bool P_Debug r = Debug (ClientConfig r)"
| "load_bool P_Insecure r = Insecure (ClientConfig r)"
| "load_bool P_Quiet r = Quiet (ClientConfig r)"

fun load_slice :: "slice_ptr \<Rightarrow> root \<Rightarrow> string list" where
  "load_slice P_LoginAuthEndpoints r = LoginAuthEndpoints (ClientConfig r)"

fun load :: "flag_binding \<Rightarrow> root \<Rightarrow> flag_value" where
  "load (StringB p) r = StringV (load_string p r)"
| "load (DurationB p) r = DurationV (load_duration p r)"
| "load (IntB p) r = IntV (load_int p r)"
| "load (BoolB p) r = BoolV (load_bool p r)"
| "load (StringSliceB p) r = StringSliceV (load_slice p r)"

text \<open>The default recorded for a flag name, if the name is registered.\<close>

definition default_of :: "root \<Rightarrow> string \<Rightarrow> flag_value option" where
  "default_of r n = map_option DefValue (Lookup (PersistentFlags r) n)"

subsection \<open>An instance of the collaborators\<close>

text \<open>
  To run the model on concrete inputs the collaborators need values.  \<open>Atoi64\<close> follows
  \<^verbatim>\<open>strconv.Atoi\<close> on a 64-bit platform: an optional sign and decimal digits; a malformed
  string gives 0 with a syntax error, a number out of range gives the nearest bound with a
  range error.  \<open>ParseWholeDuration\<close> reads only the durations made of one whole number
  and one unit, and fails with 0 on anything else.  \<open>asciiToLower\<close> lowers the ASCII
  capital letters.  In \<open>go64\<close> the logging set-up succeeds and the flag parser accepts every
  vector and stores nothing.
\<close>

definition digit :: "char \<Rightarrow> nat option" where
  "digit c =
     (if 48 \<le> (of_char c :: nat) \<and> (of_char c :: nat) \<le> 57
      then Some (of_char c - 48) else None)"

fun digits :: "string \<Rightarrow> nat \<Rightarrow> nat option" where
  "digits [] acc = Some acc"
| "digits (c # cs) acc =
     (case digit c of None \<Rightarrow> None | Some d \<Rightarrow> digits cs (10 * acc + d))"

definition Atoi64 :: "string \<Rightarrow> int go_result" where
  "Atoi64 s =
    (let neg = (s \<noteq> [] \<and> hd s = CHR ''-'');
         body = (if s \<noteq> [] \<and> (hd s = CHR ''-'' \<or> hd s = CHR ''+'') then tl s else s)
     in if body = [] then (0, Some ''invalid syntax'')
        else (case digits body 0 of
                None \<Rightarrow> (0, Some ''invalid syntax'')
              | Some n \<Rightarrow>
                  if neg then
                    (if 2 ^ 63 < n then (- (2 ^ 63), Some ''value out of range'')
                     else (- int n, None))
                  else
                    (if 2 ^ 63 - 1 < n then (2 ^ 63 - 1, Some ''value out of range'')
                     else (int n, None))))"

definition unit_ns :: "string \<Rightarrow> int option" where
  "unit_ns u =
     (if u = ''ns'' then Some 1
      else if u = ''us'' then Some 1000
      else if u = ''ms'' then Some 1000000
      else if u = ''s'' then Some Second
      else if u = ''m'' then Some (60 * Second)
      else if u = ''h'' then Some (3600 * Second)
      else None)"

definition ParseWholeDuration :: "string \<Rightarrow> int go_result" where
  "ParseWholeDuration s =
    (let ds = takeWhile (\<lambda>c. digit c \<noteq> None) s;
         u = dropWhile (\<lambda>c. digit c \<noteq> None) s
     in case (digits ds 0, unit_ns u) of
          (Some n, Some k) \<Rightarrow>
            if ds \<noteq> [] \<and> int n * k < 2 ^ 63 then (int n * k, None)
            else (0, Some ''invalid duration'')
        | _ \<Rightarrow> (0, Some ''invalid duration''))"

definition asciiToLower :: "string \<Rightarrow> string" where
  "asciiToLower s =
     map (\<lambda>c. case map_of (zip ''ABCDEFGHIJKLMNOPQRSTUVWXYZ'' ''abcdefghijklmnopqrstuvwxyz'') c of
                 None \<Rightarrow> c | Some l \<Rightarrow> l) s"

definition go64 :: extern where
  "go64 =
     \<lparr> ParseDuration = ParseWholeDuration, Atoi = Atoi64, ParseInt = Atoi64,
       ToLower = asciiToLower, Setup = (\<lambda>level. None),
       ParseFlags = (\<lambda>args r. (r, None)) \<rparr>"

text \<open>Two environments to run the model on: every variable set, and three malformed numbers.\<close>

definition env_all_set :: environ where
  "env_all_set =
     [''SSH_INSCRIBE_URL'' \<mapsto> ''https://ca.example'',
      ''SSH_INSCRIBE_TIMEOUT'' \<mapsto> ''5s'',
      ''SSH_INSCRIBE_RETRIES'' \<mapsto> ''7'',
      ''SSH_INSCRIBE_DEBUG'' \<mapsto> ''1'',
      ''SSH_INSCRIBE_INSECURE'' \<mapsto> ''yes'',
      ''SSH_INSCRIBE_LOGLEVEL'' \<mapsto> ''debug'',
      ''SSH_INSCRIBE_QUIET'' \<mapsto> ''true'',
      ''SSH_INSCRIBE_LOGIN_AUTH_ENDPOINTS'' \<mapsto> ''pw,oidc'',
      ''SSH_INSCRIBE_INCLUDE_PRINCIPALS'' \<mapsto> ''d*'',
      ''SSH_INSCRIBE_EXCLUDE_PRINCIPALS'' \<mapsto> ''root'',
      ''SSH_INSCRIBE_EXPIRE'' \<mapsto> ''10m'',
      ''SSH_INSCRIBE_GENKEY_TYPE'' \<mapsto> ''ed25519'',
      ''SSH_INSCRIBE_GENKEY_SIZE'' \<mapsto> ''4096'']"

definition env_malformed :: environ where
  "env_malformed =
     [''SSH_INSCRIBE_TIMEOUT'' \<mapsto> ''soon'',
      ''SSH_INSCRIBE_RETRIES'' \<mapsto> ''many'',
      ''SSH_INSCRIBE_GENKEY_SIZE'' \<mapsto> ''big'']"

section \<open>The signing server\<close>

text \<open>
  The sources hold the command-line client only.  The identity model, the session store
  and pipeline, the signing state machine and the configuration validation of the server
  are not among them, so this section follows the words of spec.md.  What the spec leaves
  to collaborators (the backends, glob matching, the signer, the key id summary, the
  evaluation of \<open>principals_allow\<close>) is a parameter.  Times are seconds.
\<close>

subsection \<open>Data model\<close>

type_synonym principal = string

type_synonym claim = "string \<times> string"

text \<open>Modelled from the spec: the Identity of section 3; the identity model is not in src.\<close>

record identity =
  subject :: string
  principals :: "principal list"
  claims :: "claim list"
  authenticator_id :: string
  confirmed_at :: int

text \<open>Modelled from the spec: the AuthenticatorSpec of section 3; the server configuration is not in src.\<close>

record authenticator_spec =
  spec_id :: string
  spec_name :: string
  spec_type :: string
  realm :: string
  required :: bool
  spec_order :: int
  claims_filter :: "claim list"
  principals_allow :: "string list"

text \<open>Modelled from the spec: the CertificateRequest of section 3 and the body of POST /sign.\<close>

record certificate_request =
  requested_lifetime :: "int option"
  include_glob :: "string option"
  exclude_glob :: "string option"

text \<open>
  Modelled from the spec: the template handed to a signer (section 4.D) and the Certificate
  of section 3, which is the template with a signature; the signer is not in src.
\<close>

record template =
  valid_principals :: "principal list"
  valid_after :: int
  valid_before :: int
  key_id :: string
  extensions :: "string list"
  critical_options :: "(string \<times> string) list"
  user_key :: string

record certificate = template +
  signature :: string

text \<open>Modelled from the spec: the session states of the diagram in section 4.E.\<close>

datatype stage = Created | AwaitAuth | Ready | Signed | End

text \<open>
  Modelled from the spec: the AuthContext of section 3, with the state of the diagram of
  section 4.E as a field; the session store is not in src.
\<close>

record auth_context =
  ctx_id :: nat
  created_at :: int
  expires_at :: int
  completed :: "string list"
  pending :: "string list"
  identities :: "identity list"
  pubkey :: "string option"
  certificate :: "certificate option"
  stage :: stage

text \<open>
  Modelled from the spec: the error kinds of section 7, with the two named in sections 4.A
  and 4.E, and the AuthError variants of section 4.B.
\<close>

datatype error_kind =
  BadRequest | Unauthenticated | AuthFailed | PolicyDenied | NotReady | SignerSealed
| UpstreamUnavailable | DeadlineElapsed | Internal | NoEligiblePrincipals
| UnknownAuthenticator

datatype auth_error =
  BadCredentials | Locked | BackendUnavailable | BackendPolicyDenied | BackendTimeout

text \<open>Modelled from the spec: the translation of backend errors at the HTTP boundary (section 7).\<close>

fun kind_of :: "auth_error \<Rightarrow> error_kind" where
  "kind_of BadCredentials = AuthFailed"
| "kind_of Locked = AuthFailed"
| "kind_of BackendUnavailable = UpstreamUnavailable"
| "kind_of BackendPolicyDenied = PolicyDenied"
| "kind_of BackendTimeout = DeadlineElapsed"

text \<open>Modelled from the spec: the credentials and the results of a backend (section 4.B).\<close>

datatype credentials = Password string | SignatureOver string | Code string | PriorCert string

datatype backend_result =
  Authenticated identity | Rejected auth_error | PendingChallenge string

text \<open>
  Modelled from the spec: a realm, the policy bundle of the glossary: its authenticators,
  the minimum realm requirement of section 4.E, the session TTL, the lifetime bounds and
  the options of section 4.F.
\<close>

record realm_policy =
  authenticators :: "authenticator_spec list"
  minimum :: "string list"
  ttl :: int
  min_lifetime :: int
  max_lifetime :: int
  force_command :: "string option"
  source_address :: "string option"
  permit_extensions :: "string list"

text \<open>
  Modelled from the spec: the collaborators of the core.  \<open>backend a sid cr\<close> is the
  backend of authenticator \<open>a\<close> run for session \<open>sid\<close>; \<open>glob p s\<close> is the anchored match of
  pattern \<open>p\<close> on \<open>s\<close>; \<open>principal_allowed\<close> is a backend's \<open>principals_allow\<close> list
  evaluated against the contributing identity; \<open>signer\<close> signs a template or fails;
  \<open>summary\<close> is the key id of section 4.A, item 4; \<open>secret_ok\<close> tells whether an unseal
  secret opens the signer.
\<close>

record collab =
  backend :: "string \<Rightarrow> nat \<Rightarrow> credentials \<Rightarrow> backend_result"
  glob :: "string \<Rightarrow> string \<Rightarrow> bool"
  principal_allowed :: "identity \<Rightarrow> principal \<Rightarrow> bool"
  signer :: "template \<Rightarrow> error_kind + certificate"
  summary :: "realm_policy \<Rightarrow> identity list \<Rightarrow> string"
  secret_ok :: "string \<Rightarrow> bool"

text \<open>
  Modelled from the spec: the server state: the in-memory session map of section 4.E, the
  seal state of the signer (section 4.D), and a log of the certificates the signer has
  issued, by session.
\<close>

record server =
  sessions :: "nat \<rightharpoonup> auth_context"
  next_id :: nat
  sealed :: bool
  issued :: "(nat \<times> certificate) list"

definition server0 :: server where
  "server0 = \<lparr>sessions = Map.empty, next_id = 0, sealed = True, issued = []\<rparr>"

definition skew :: int where
  "skew = 30"

subsection \<open>Identity and principal algebra\<close>

text \<open>
  Modelled from the spec: section 4.A, items 1 to 3.  The principals of all identities,
  without those their backend's \<open>principals_allow\<close> filters out, deduplicated; then the
  include glob keeps its matches and the exclude glob drops its matches; an absent glob
  filters nothing; an empty result is the error NoEligiblePrincipals.
\<close>

definition merged_principals :: "collab \<Rightarrow> identity list \<Rightarrow> principal list" where
  "merged_principals ext ids =
     remdups (concat (map (\<lambda>i. filter (principal_allowed ext i) (principals i)) ids))"

definition apply_include :: "collab \<Rightarrow> string option \<Rightarrow> principal list \<Rightarrow> principal list" where
  "apply_include ext g ps = (case g of None \<Rightarrow> ps | Some p \<Rightarrow> filter (glob ext p) ps)"

definition apply_exclude :: "collab \<Rightarrow> string option \<Rightarrow> principal list \<Rightarrow> principal list" where
  "apply_exclude ext g ps =
     (case g of None \<Rightarrow> ps | Some p \<Rightarrow> filter (\<lambda>s. \<not> glob ext p s) ps)"

definition effective_principals ::
  "collab \<Rightarrow> identity list \<Rightarrow> certificate_request \<Rightarrow> error_kind + principal list" where
  "effective_principals ext ids rq =
    (let ps = apply_exclude ext (exclude_glob rq)
                (apply_include ext (include_glob rq) (merged_principals ext ids))
     in if ps = [] then Inl NoEligiblePrincipals else Inr ps)"

subsection \<open>Configuration validation\<close>

text \<open>
  Modelled from the spec: sections 4.C and 8 (S6) and the stricter reading of section 9:
  a configuration whose required authenticators are all of the cert-reauth type is
  rejected at start-up with PolicyDenied; the start-up code is not in src.
\<close>

definition sole_required_reauth :: "realm_policy \<Rightarrow> bool" where
  "sole_required_reauth pol =
    (let rq = filter required (authenticators pol)
     in rq \<noteq> [] \<and> (\<forall>a \<in> set rq. spec_type a = ''cert-reauth''))"

definition validate_config :: "realm_policy \<Rightarrow> error_kind + realm_policy" where
  "validate_config pol = (if sole_required_reauth pol then Inl PolicyDenied else Inr pol)"

definition startup :: "realm_policy \<Rightarrow> error_kind + server" where
  "startup pol = (case validate_config pol of Inl e \<Rightarrow> Inl e | Inr p \<Rightarrow> Inr server0)"

subsection \<open>Pipeline and signing state machine\<close>

text \<open>Modelled from the spec: what the endpoints of section 4.G answer.\<close>

datatype response =
  Token nat | Done | Challenge string | Cert certificate | Failed error_kind

text \<open>
  Modelled from the spec: a session is reachable until its expiry; afterwards (or once
  reaped or logged out) a request for it is Unauthenticated (sections 4.E, 7 and 8).
\<close>

definition find_session :: "server \<Rightarrow> int \<Rightarrow> nat \<Rightarrow> error_kind + auth_context" where
  "find_session srv now sid =
     (case sessions srv sid of
        None \<Rightarrow> Inl Unauthenticated
      | Some c \<Rightarrow> if now < expires_at c then Inr c else Inl Unauthenticated)"

text \<open>Modelled from the spec: a new session, in state Created, with the realm's TTL.\<close>

definition create_session :: "realm_policy \<Rightarrow> int \<Rightarrow> server \<Rightarrow> response \<times> server" where
  "create_session pol now srv =
    (let sid = next_id srv;
         c = \<lparr>ctx_id = sid, created_at = now, expires_at = now + ttl pol, completed = [],
              pending = map spec_id (authenticators pol), identities = [], pubkey = None,
              certificate = None, stage = Created\<rparr>
     in (Token sid, srv\<lparr>sessions := (sessions srv)(sid \<mapsto> c), next_id := Suc sid\<rparr>))"

text \<open>
  Modelled from the spec: provide-pubkey moves Created to AwaitAuth; the key is set once
  and an attempt to change it is refused (section 3).
\<close>

definition provide_pubkey :: "int \<Rightarrow> nat \<Rightarrow> string \<Rightarrow> server \<Rightarrow> response \<times> server" where
  "provide_pubkey now sid pk srv =
    (case find_session srv now sid of
       Inl e \<Rightarrow> (Failed e, srv)
     | Inr c \<Rightarrow>
         if pubkey c \<noteq> None \<or> stage c \<noteq> Created then (Failed BadRequest, srv)
         else (Done, srv\<lparr>sessions :=
                 (sessions srv)(sid \<mapsto> c\<lparr>pubkey := Some pk, stage := AwaitAuth\<rparr>)\<rparr>))"

text \<open>
  Modelled from the spec: the condition for Ready of section 4.E: every required
  authenticator has an identity in the session, and the completed authenticators include
  the minimum realm requirement.
\<close>

definition is_ready :: "realm_policy \<Rightarrow> auth_context \<Rightarrow> bool" where
  "is_ready pol c =
     ((\<forall>a \<in> set (authenticators pol).
         required a \<longrightarrow> (\<exists>i \<in> set (identities c). authenticator_id i = spec_id a))
      \<and> set (minimum pol) \<subseteq> set (completed c))"

text \<open>
  Modelled from the spec: one authentication step (sections 4.B and 4.E).  The
  authenticator must be pending, else UnknownAuthenticator; a challenge leaves the session
  as it is; on success the identity is recorded under the authenticator, which moves from
  pending to completed, and the session is marked Ready when the condition holds.
\<close>

definition authenticate ::
  "realm_policy \<Rightarrow> collab \<Rightarrow> int \<Rightarrow> nat \<Rightarrow> string \<Rightarrow> credentials \<Rightarrow> server
     \<Rightarrow> response \<times> server" where
  "authenticate pol ext now sid a cr srv =
    (case find_session srv now sid of
       Inl e \<Rightarrow> (Failed e, srv)
     | Inr c \<Rightarrow>
         if stage c \<noteq> AwaitAuth \<and> stage c \<noteq> Ready then (Failed BadRequest, srv)
         else if a \<notin> set (pending c) then (Failed UnknownAuthenticator, srv)
         else (case backend ext a sid cr of
                 PendingChallenge ch \<Rightarrow> (Challenge ch, srv)
               | Rejected e \<Rightarrow> (Failed (kind_of e), srv)
               | Authenticated idn \<Rightarrow>
                   (let c1 = c\<lparr>completed := List.insert a (completed c),
                               pending := removeAll a (pending c),
                               identities := identities c
                                 @ [idn\<lparr>authenticator_id := a, confirmed_at := now\<rparr>]\<rparr>;
                        c2 = (if is_ready pol c1 then c1\<lparr>stage := Ready\<rparr> else c1)
                    in (Done, srv\<lparr>sessions := (sessions srv)(sid \<mapsto> c2)\<rparr>))))"

text \<open>
  Modelled from the spec: the lifetime policy of section 4.F, step 2: an unset lifetime is
  the maximum, a lifetime outside the bounds is denied.
\<close>

definition lifetime_of :: "realm_policy \<Rightarrow> certificate_request \<Rightarrow> error_kind + int" where
  "lifetime_of pol rq =
     (case requested_lifetime rq of
        None \<Rightarrow> Inr (max_lifetime pol)
      | Some l \<Rightarrow> if min_lifetime pol \<le> l \<and> l \<le> max_lifetime pol then Inr l
                  else Inl PolicyDenied)"

definition options_of :: "realm_policy \<Rightarrow> (string \<times> string) list" where
  "options_of pol =
     (case force_command pol of None \<Rightarrow> [] | Some v \<Rightarrow> [(''force-command'', v)])
     @ (case source_address pol of None \<Rightarrow> [] | Some v \<Rightarrow> [(''source-address'', v)])"

text \<open>
  Modelled from the spec: get-cert, section 4.F.  A session that holds a certificate
  returns it again; otherwise the session must be Ready, the policy is enforced, the
  effective identity computed, the signer invoked, and on success the certificate is
  attached and the session becomes Signed.
\<close>

definition get_cert ::
  "realm_policy \<Rightarrow> collab \<Rightarrow> int \<Rightarrow> nat \<Rightarrow> certificate_request \<Rightarrow> server
     \<Rightarrow> response \<times> server" where
  "get_cert pol ext now sid rq srv =
    (case find_session srv now sid of
       Inl e \<Rightarrow> (Failed e, srv)
     | Inr c \<Rightarrow>
        (case certificate c of
           Some cert \<Rightarrow> (Cert cert, srv)
         | None \<Rightarrow>
            if stage c \<noteq> Ready then (Failed NotReady, srv)
            else (case lifetime_of pol rq of
              Inl e \<Rightarrow> (Failed e, srv)
            | Inr lt \<Rightarrow>
               (case effective_principals ext (identities c) rq of
                  Inl e \<Rightarrow> (Failed e, srv)
                | Inr ps \<Rightarrow>
                   (case pubkey c of
                      None \<Rightarrow> (Failed Internal, srv)
                    | Some pk \<Rightarrow>
                       if sealed srv then (Failed SignerSealed, srv)
                       else (case signer ext
                               \<lparr>valid_principals = ps, valid_after = now - skew,
                                valid_before = now + lt,
                                key_id = summary ext pol (identities c),
                                extensions = permit_extensions pol,
                                critical_options = options_of pol, user_key = pk\<rparr> of
                          Inl e \<Rightarrow> (Failed e, srv)
                        | Inr cert \<Rightarrow>
                            (Cert cert,
                             srv\<lparr>sessions :=
                                   (sessions srv)(sid \<mapsto> c\<lparr>certificate := Some cert,
                                                             stage := Signed\<rparr>),
                                 issued := issued srv @ [(sid, cert)]\<rparr>)))))))"

text \<open>Modelled from the spec: explicit logout, the reaper of section 4.E, and seal and unseal.\<close>

definition logout :: "int \<Rightarrow> nat \<Rightarrow> server \<Rightarrow> response \<times> server" where
  "logout now sid srv =
    (case find_session srv now sid of
       Inl e \<Rightarrow> (Failed e, srv)
     | Inr c \<Rightarrow> (Done, srv\<lparr>sessions := (sessions srv)(sid := None)\<rparr>))"

definition reap :: "int \<Rightarrow> server \<Rightarrow> server" where
  "reap now srv =
     srv\<lparr>sessions := (\<lambda>sid. case sessions srv sid of
                         None \<Rightarrow> None
                       | Some c \<Rightarrow> if expires_at c \<le> now then None else Some c)\<rparr>"

definition unseal :: "collab \<Rightarrow> string \<Rightarrow> server \<Rightarrow> response \<times> server" where
  "unseal ext secret srv =
     (if secret_ok ext secret then (Done, srv\<lparr>sealed := False\<rparr>) else (Failed BadRequest, srv))"

definition seal :: "server \<Rightarrow> response \<times> server" where
  "seal srv = (Done, srv\<lparr>sealed := True\<rparr>)"

text \<open>
  Modelled from the spec: the requests of section 4.G, each with the time it is served
  at, and the run of a list of them from a server state.
\<close>

datatype request =
  Create
| ProvidePubkey nat string
| Authenticate nat string credentials
| GetCert nat certificate_request
| Logout nat
| Reap
| Unseal string
| Seal

fun serve :: "realm_policy \<Rightarrow> collab \<Rightarrow> int \<times> request \<Rightarrow> server \<Rightarrow> response \<times> server" where
  "serve pol ext (now, Create) srv = create_session pol now srv"
| "serve pol ext (now, ProvidePubkey sid pk) srv = provide_pubkey now sid pk srv"
| "serve pol ext (now, Authenticate sid a cr) srv = authenticate pol ext now sid a cr srv"
| "serve pol ext (now, GetCert sid rq) srv = get_cert pol ext now sid rq srv"
| "serve pol ext (now, Logout sid) srv = logout now sid srv"
| "serve pol ext (now, Reap) srv = (Done, reap now srv)"
| "serve pol ext (now, Unseal secret) srv = unseal ext secret srv"
| "serve pol ext (now, Seal) srv = seal srv"

fun run :: "realm_policy \<Rightarrow> collab \<Rightarrow> (int \<times> request) list \<Rightarrow> server \<Rightarrow> server" where
  "run pol ext [] srv = srv"
| "run pol ext (ev # evs) srv = run pol ext evs (snd (serve pol ext ev srv))"

subsection \<open>Invariants of the session store\<close>

text \<open>
  Modelled from the spec: the invariants of section 3 and the first property of section 8,
  for one session and for the store: an authenticator is completed exactly when an
  identity of it exists, pending and completed are disjoint, and a session that is Ready
  or Signed has completed every required authenticator.
\<close>

definition required_ids :: "realm_policy \<Rightarrow> string set" where
  "required_ids pol = spec_id ` {a \<in> set (authenticators pol). required a}"

definition ctx_inv :: "realm_policy \<Rightarrow> auth_context \<Rightarrow> bool" where
  "ctx_inv pol c =
     (set (completed c) = authenticator_id ` set (identities c)
      \<and> set (pending c) \<inter> set (completed c) = {}
      \<and> (stage c = Ready \<or> stage c = Signed \<longrightarrow> required_ids pol \<subseteq> set (completed c)))"

definition store_inv :: "realm_policy \<Rightarrow> server \<Rightarrow> bool" where
  "store_inv pol srv = (\<forall>sid c. sessions srv sid = Some c \<longrightarrow> ctx_inv pol c)"

text \<open>
  The issue log and the sessions agree: session ids are below the next id, the log has at
  most one certificate per session, and a session holds a certificate exactly when the log
  has it.
\<close>

definition issue_inv :: "server \<Rightarrow> bool" where
  "issue_inv srv =
     (distinct (map fst (issued srv))
      \<and> (\<forall>e \<in> set (issued srv). fst e < next_id srv)
      \<and> (\<forall>sid c. sessions srv sid = Some c \<longrightarrow>
            sid < next_id srv
            \<and> (certificate c = None \<longrightarrow> sid \<notin> fst ` set (issued srv))
            \<and> (\<forall>cert. certificate c = Some cert \<longrightarrow> (sid, cert) \<in> set (issued srv))))"

subsection \<open>An instance of the server's collaborators\<close>

text \<open>
  To run the server model on concrete inputs: a glob matcher for \<open>*\<close> and \<open>?\<close>, the two
  backends of scenario S1 of section 8, a signer that copies the template and adds a fixed
  signature, and two policies: the one of S1, and one whose only required authenticator is
  of the cert-reauth type.
\<close>

fun star_glob :: "string \<Rightarrow> string \<Rightarrow> bool" where
  "star_glob [] [] = True"
| "star_glob [] (c # cs) = False"
| "star_glob (p # ps) [] = (p = CHR ''*'' \<and> star_glob ps [])"
| "star_glob (p # ps) (c # cs) =
     (if p = CHR ''*'' then star_glob ps (c # cs) \<or> star_glob (p # ps) cs
      else (p = CHR ''?'' \<or> p = c) \<and> star_glob ps cs)"

definition demo_backend :: "string \<Rightarrow> nat \<Rightarrow> credentials \<Rightarrow> backend_result" where
  "demo_backend a sid cr =
     (if a = ''pw'' \<and> cr = Password ''hunter2'' then
        Authenticated \<lparr>subject = ''alice'', principals = [''alice'', ''dev''], claims = [],
                       authenticator_id = ''pw'', confirmed_at = 0\<rparr>
      else if a = ''oidc'' \<and> cr = Code ''ok'' then
        Authenticated \<lparr>subject = ''alice'', principals = [''alice'', ''ops'', ''dev''],
                       claims = [(''issuer'', ''idp'')], authenticator_id = ''oidc'',
                       confirmed_at = 0\<rparr>
      else if a = ''reauth'' \<and> cr = PriorCert ''still-valid'' then
        Authenticated \<lparr>subject = ''alice'', principals = [''alice''], claims = [],
                       authenticator_id = ''reauth'', confirmed_at = 0\<rparr>
      else Rejected BadCredentials)"

definition demo_signer :: "template \<Rightarrow> error_kind + certificate" where
  "demo_signer t =
     Inr \<lparr>valid_principals = valid_principals t, valid_after = valid_after t,
          valid_before = valid_before t, key_id = key_id t, extensions = extensions t,
          critical_options = critical_options t, user_key = user_key t,
          signature = ''ca-signature''\<rparr>"

definition demo :: collab where
  "demo =
     \<lparr>backend = demo_backend, glob = star_glob, principal_allowed = (\<lambda>i p. True),
      signer = demo_signer,
      summary = (\<lambda>pol ids. case ids of [] \<Rightarrow> [] | i # rest \<Rightarrow> subject i),
      secret_ok = (\<lambda>s. s = ''open sesame'')\<rparr>"

definition auth_spec :: "string \<Rightarrow> string \<Rightarrow> bool \<Rightarrow> int \<Rightarrow> authenticator_spec" where
  "auth_spec i t rq n =
     \<lparr>spec_id = i, spec_name = i, spec_type = t, realm = ''default'', required = rq,
      spec_order = n, claims_filter = [], principals_allow = []\<rparr>"

definition demo_policy :: realm_policy where
  "demo_policy =
     \<lparr>authenticators = [auth_spec ''pw'' ''file'' True 1, auth_spec ''oidc'' ''oidc'' True 2],
      minimum = [], ttl = 300, min_lifetime = 60, max_lifetime = 3600,
      force_command = None, source_address = None, permit_extensions = [''permit-pty'']\<rparr>"

definition reauth_only_policy :: realm_policy where
  "reauth_only_policy =
     \<lparr>authenticators =
        [auth_spec ''reauth'' ''cert-reauth'' True 1, auth_spec ''pw'' ''file'' False 2],
      minimum = [], ttl = 300, min_lifetime = 60, max_lifetime = 3600,
      force_command = None, source_address = None, permit_extensions = []\<rparr>"

definition s1_identities :: "identity list" where
  "s1_identities =
     [\<lparr>subject = ''alice'', principals = [''alice'', ''dev''], claims = [],
       authenticator_id = ''pw'', confirmed_at = 10\<rparr>,
      \<lparr>subject = ''alice'', principals = [''alice'', ''ops'', ''dev''],
       claims = [(''issuer'', ''idp'')], authenticator_id = ''oidc'', confirmed_at = 20\<rparr>]"

definition s1_request :: "string option \<Rightarrow> certificate_request" where
  "s1_request inc = \<lparr>requested_lifetime = Some 600, include_glob = inc, exclude_glob = None\<rparr>"

definition mixed_policy :: realm_policy where
  "mixed_policy =
     \<lparr>authenticators =
        [auth_spec ''reauth'' ''cert-reauth'' True 1, auth_spec ''pw'' ''file'' True 2],
      minimum = [], ttl = 300, min_lifetime = 60, max_lifetime = 3600,
      force_command = None, source_address = None, permit_extensions = []\<rparr>"

text \<open>The requests of scenario S1 up to Ready, and the same with the signer unsealed and a first sign.\<close>

definition s1_events :: "(int \<times> request) list" where
  "s1_events =
     [(0, Create), (1, ProvidePubkey 0 ''ssh-ed25519 AAAA''),
      (10, Authenticate 0 ''pw'' (Password ''hunter2'')),
      (20, Authenticate 0 ''oidc'' (Code ''ok''))]"

definition mixed_events :: "(int \<times> request) list" where
  "mixed_events =
     [(0, Create), (1, ProvidePubkey 0 ''ssh-ed25519 AAAA''),
      (10, Authenticate 0 ''reauth'' (PriorCert ''still-valid'')),
      (20, Authenticate 0 ''pw'' (Password ''hunter2''))]"

section \<open>Properties of the command-line client\<close>

subsection \<open>The state after init\<close>

lemma init_comp:
  "init lib env r0 =
     init_keysize lib env (init_keytype env (init_expire lib env (init_exclude env
       (init_include env (init_login env (init_quiet env (init_loglevel env
         (init_insecure env (init_debug env (init_retries lib env (init_timeout lib env
           (init_url env (OnInitialize ''rootInit'' r0)))))))))))))"
  by (simp add: init_def Let_def)

lemmas var_defs =
  StringVar_def StringVarP_def DurationVar_def DurationVarP_def IntVar_def IntVarP_def
  BoolVar_def BoolVarP_def StringSliceVarP_def

lemma init_debug_eq:
  "init_debug env r =
    (let d = (Getenv env ''SSH_INSCRIBE_DEBUG'' \<noteq> [] \<or> Debug (ClientConfig r))
     in AddFlag \<lparr>Name = ''debug'', Shorthand = [], DefValue = BoolV d, Value = BoolB P_Debug\<rparr>
          (store_bool P_Debug d r))"
  by (simp add: init_debug_def var_defs Let_def)

lemma init_insecure_eq:
  "init_insecure env r =
    (let d = (Getenv env ''SSH_INSCRIBE_INSECURE'' \<noteq> [] \<or> Insecure (ClientConfig r))
     in AddFlag
          \<lparr>Name = ''insecure'', Shorthand = [], DefValue = BoolV d, Value = BoolB P_Insecure\<rparr>
          (store_bool P_Insecure d r))"
  by (simp add: init_insecure_def var_defs Let_def)

lemma init_quiet_eq:
  "init_quiet env r =
    (let d = (Getenv env ''SSH_INSCRIBE_QUIET'' \<noteq> [] \<or> Quiet (ClientConfig r))
     in AddFlag \<lparr>Name = ''quiet'', Shorthand = ''q'', DefValue = BoolV d, Value = BoolB P_Quiet\<rparr>
          (store_bool P_Quiet d r))"
  by (simp add: init_quiet_def var_defs Let_def)

lemma init_loglevel_eq:
  "init_loglevel env r =
    (let d = (if Getenv env ''SSH_INSCRIBE_LOGLEVEL'' \<noteq> []
              then Getenv env ''SSH_INSCRIBE_LOGLEVEL'' else logLevel r)
     in AddFlag
          \<lparr>Name = ''loglevel'', Shorthand = [], DefValue = StringV d, Value = StringB P_logLevel\<rparr>
          (store_string P_logLevel d r))"
  by (simp add: init_loglevel_def var_defs Let_def)

lemma init_keytype_eq:
  "init_keytype env r =
    (let d = (if Getenv env ''SSH_INSCRIBE_GENKEY_TYPE'' \<noteq> []
              then Getenv env ''SSH_INSCRIBE_GENKEY_TYPE''
              else GenerateKeypairType (ClientConfig r))
     in AddFlag
          \<lparr>Name = ''keytype'', Shorthand = ''t'', DefValue = StringV d,
            Value = StringB P_GenerateKeypairType\<rparr>
          (store_string P_GenerateKeypairType d r))"
  by (simp add: init_keytype_def var_defs Let_def)

lemma init_keysize_eq:
  "init_keysize lib env r =
    (let d = (if Getenv env ''SSH_INSCRIBE_GENKEY_SIZE'' \<noteq> []
              then fst (ParseInt lib (Getenv env ''SSH_INSCRIBE_GENKEY_SIZE''))
              else GenerateKeypairSize (ClientConfig r))
     in AddFlag
          \<lparr>Name = ''keysize'', Shorthand = ''b'', DefValue = IntV d,
            Value = IntB P_GenerateKeypairSize\<rparr>
          (store_int P_GenerateKeypairSize d r))"
  by (simp add: init_keysize_def var_defs Let_def)

lemmas started_unfold =
  started_def init_comp init_url_def init_timeout_def init_retries_def init_debug_eq
  init_insecure_eq init_loglevel_eq init_quiet_eq init_login_def init_include_def
  init_exclude_def init_expire_def init_keytype_eq init_keysize_eq var_defs AddFlag_def
  OnInitialize_def Let_def root0_def ClientConfig0_def

lemma started_Debug:
  "Debug (ClientConfig (started lib env)) = (Getenv env ''SSH_INSCRIBE_DEBUG'' \<noteq> [])"
  by (simp add: started_unfold)

lemma started_Insecure:
  "Insecure (ClientConfig (started lib env)) = (Getenv env ''SSH_INSCRIBE_INSECURE'' \<noteq> [])"
  by (simp add: started_unfold)

lemma started_Quiet:
  "Quiet (ClientConfig (started lib env)) = (Getenv env ''SSH_INSCRIBE_QUIET'' \<noteq> [])"
  by (simp add: started_unfold)

subsection \<open>Boolean options from the environment\<close>

text \<open>
  Claim C9.  After \<open>init\<close>, each of the options \<open>Debug\<close>, \<open>Insecure\<close> and \<open>Quiet\<close> is true
  exactly when its environment variable is non-empty, whatever the value says: only an
  unset or empty variable leaves the option false.
\<close>

theorem bool_option_true_iff_env_nonempty:
  "Debug (ClientConfig (started lib env)) = (Getenv env ''SSH_INSCRIBE_DEBUG'' \<noteq> [])
   \<and> Insecure (ClientConfig (started lib env)) = (Getenv env ''SSH_INSCRIBE_INSECURE'' \<noteq> [])
   \<and> Quiet (ClientConfig (started lib env)) = (Getenv env ''SSH_INSCRIBE_QUIET'' \<noteq> [])"
  by (simp only: started_Debug started_Insecure started_Quiet)

theorem bool_option_true_iff_env_nonempty_witness:
  "Debug (ClientConfig (started go64
     [''SSH_INSCRIBE_DEBUG'' \<mapsto> ''false'', ''SSH_INSCRIBE_INSECURE'' \<mapsto> ''0'']))
   \<and> Insecure (ClientConfig (started go64
     [''SSH_INSCRIBE_DEBUG'' \<mapsto> ''false'', ''SSH_INSCRIBE_INSECURE'' \<mapsto> ''0'']))
   \<and> \<not> Quiet (ClientConfig (started go64
     [''SSH_INSCRIBE_DEBUG'' \<mapsto> ''false'', ''SSH_INSCRIBE_INSECURE'' \<mapsto> ''0'']))"
  using bool_option_true_iff_env_nonempty
    [of go64 "[''SSH_INSCRIBE_DEBUG'' \<mapsto> ''false'', ''SSH_INSCRIBE_INSECURE'' \<mapsto> ''0'']"]
  by (simp add: Getenv_def)

subsection \<open>Stores, loads and the flags given on a command line\<close>

lemma store_string_flags: "PersistentFlags (store_string p v r) = PersistentFlags r"
  by (cases p) simp_all
lemma store_duration_flags: "PersistentFlags (store_duration p v r) = PersistentFlags r"
  by (cases p) simp_all
lemma store_int_flags: "PersistentFlags (store_int p v r) = PersistentFlags r"
  by (cases p) simp_all
lemma store_bool_flags: "PersistentFlags (store_bool p v r) = PersistentFlags r"
  by (cases p) simp_all
lemma store_slice_flags: "PersistentFlags (store_slice p v r) = PersistentFlags r"
  by (cases p) simp_all
lemmas store_flags = store_string_flags store_duration_flags store_int_flags store_bool_flags store_slice_flags

lemma Set_flags: "Set b v r = Inr r' \<Longrightarrow> PersistentFlags r' = PersistentFlags r"
  by (cases b; cases v) (auto simp: store_flags)

lemma load_store_string:
  "load_string q (store_string p v r) = (if q = p then v else load_string q r)"
  "load_duration qd (store_string p v r) = load_duration qd r"
  "load_int qi (store_string p v r) = load_int qi r"
  "load_bool qb (store_string p v r) = load_bool qb r"
  "load_slice ql (store_string p v r) = load_slice ql r"
  subgoal by (cases p; cases q; simp)
  subgoal by (cases p; cases qd; simp)
  subgoal by (cases p; cases qi; simp)
  subgoal by (cases p; cases qb; simp)
  subgoal by (cases p; cases ql; simp)
  done

lemma load_store_duration:
  "load_duration q (store_duration p v r) = (if q = p then v else load_duration q r)"
  "load_string qs (store_duration p v r) = load_string qs r"
  "load_int qi (store_duration p v r) = load_int qi r"
  "load_bool qb (store_duration p v r) = load_bool qb r"
  "load_slice ql (store_duration p v r) = load_slice ql r"
  subgoal by (cases p; cases q; simp)
  subgoal by (cases p; cases qs; simp)
  subgoal by (cases p; cases qi; simp)
  subgoal by (cases p; cases qb; simp)
  subgoal by (cases p; cases ql; simp)
  done

lemma load_store_int:
  "load_int q (store_int p v r) = (if q = p then v else load_int q r)"
  "load_string qs (store_int p v r) = load_string qs r"
  "load_duration qd (store_int p v r) = load_duration qd r"
  "load_bool qb (store_int p v r) = load_bool qb r"
  "load_slice ql (store_int p v r) = load_slice ql r"
  subgoal by (cases p; cases q; simp)
  subgoal by (cases p; cases qs; simp)
  subgoal by (cases p; cases qd; simp)
  subgoal by (cases p; cases qb; simp)
  subgoal by (cases p; cases ql; simp)
  done

lemma load_store_bool:
  "load_bool q (store_bool p v r) = (if q = p then v else load_bool q r)"
  "load_string qs (store_bool p v r) = load_string qs r"
  "load_duration qd (store_bool p v r) = load_duration qd r"
  "load_int qi (store_bool p v r) = load_int qi r"
  "load_slice ql (store_bool p v r) = load_slice ql r"
  subgoal by (cases p; cases q; simp)
  subgoal by (cases p; cases qs; simp)
  subgoal by (cases p; cases qd; simp)
  subgoal by (cases p; cases qi; simp)
  subgoal by (cases p; cases ql; simp)
  done

lemma load_store_slice:
  "load_slice q (store_slice p v r) = (if q = p then v else load_slice q r)"
  "load_string qs (store_slice p v r) = load_string qs r"
  "load_duration qd (store_slice p v r) = load_duration qd r"
  "load_int qi (store_slice p v r) = load_int qi r"
  "load_bool qb (store_slice p v r) = load_bool qb r"
  subgoal by (cases p; cases q; simp)
  subgoal by (cases p; cases qs; simp)
  subgoal by (cases p; cases qd; simp)
  subgoal by (cases p; cases qi; simp)
  subgoal by (cases p; cases qb; simp)
  done

lemmas load_store = load_store_string load_store_duration load_store_int load_store_bool load_store_slice

lemma Set_load_other: "Set b v r = Inr r' \<Longrightarrow> b' \<noteq> b \<Longrightarrow> load b' r' = load b' r"
  by (cases b; cases v; cases b') (auto simp: load_store)

lemma Set_load_same: "Set b v r = Inr r' \<Longrightarrow> load b r' = v"
  by (cases b; cases v) (auto simp: load_store)

lemma Lookup_Some: "Lookup fs n = Some f \<Longrightarrow> f \<in> set fs \<and> Name f = n"
  unfolding Lookup_def by (induction fs) (auto split: if_splits)

lemma SetFlags_frame:
  assumes "SetFlags given r0 = Inr r" and "f \<in> set (PersistentFlags r0)"
    and "Name f \<notin> fst ` set given" and "distinct (map Value (PersistentFlags r0))"
  shows "load (Value f) r = load (Value f) r0 \<and> PersistentFlags r = PersistentFlags r0"
  using assms
proof (induction given arbitrary: r0)
  case Nil
  then show ?case by simp
next
  case (Cons g given)
  obtain n v where g: "g = (n, v)" by (cases g)
  from Cons.prems(1) g obtain f' r1 where
    look: "Lookup (PersistentFlags r0) n = Some f'" and
    set1: "Set (Value f') v r0 = Inr r1" and rest: "SetFlags given r1 = Inr r"
    by (auto split: option.splits sum.splits)
  from look have f': "f' \<in> set (PersistentFlags r0)" "Name f' = n"
    using Lookup_Some by blast+
  from Cons.prems(3) g f' have "f' \<noteq> f" by auto
  with f' Cons.prems(2,4) have ne: "Value f \<noteq> Value f'"
    by (metis distinct_map inj_onD)
  have fl: "PersistentFlags r1 = PersistentFlags r0" using set1 by (rule Set_flags)
  have l1: "load (Value f) r1 = load (Value f) r0" using set1 ne by (rule Set_load_other)
  have "load (Value f) r = load (Value f) r1 \<and> PersistentFlags r = PersistentFlags r1"
    using rest Cons.prems(2,3,4) by (intro Cons.IH) (auto simp: fl)
  with fl l1 show ?case by simp
qed

subsection \<open>The flag set after init\<close>

lemma started_flags:
  "PersistentFlags (started lib env) =
    [\<lparr>Name = ''url'', Shorthand = [], DefValue = StringV (Getenv env ''SSH_INSCRIBE_URL''),
       Value = StringB P_URL\<rparr>,
     \<lparr>Name = ''timeout'', Shorthand = [],
       DefValue = DurationV (if Getenv env ''SSH_INSCRIBE_TIMEOUT'' \<noteq> []
                             then fst (ParseDuration lib (Getenv env ''SSH_INSCRIBE_TIMEOUT''))
                             else 2 * Second),
       Value = DurationB P_Timeout\<rparr>,
     \<lparr>Name = ''retries'', Shorthand = [],
       DefValue = IntV (if Getenv env ''SSH_INSCRIBE_RETRIES'' \<noteq> []
                        then fst (Atoi lib (Getenv env ''SSH_INSCRIBE_RETRIES'')) else 3),
       Value = IntB P_Retries\<rparr>,
     \<lparr>Name = ''debug'', Shorthand = [],
       DefValue = BoolV (Getenv env ''SSH_INSCRIBE_DEBUG'' \<noteq> []), Value = BoolB P_Debug\<rparr>,
     \<lparr>Name = ''insecure'', Shorthand = [],
       DefValue = BoolV (Getenv env ''SSH_INSCRIBE_INSECURE'' \<noteq> []),
       Value = BoolB P_Insecure\<rparr>,
     \<lparr>Name = ''loglevel'', Shorthand = [],
       DefValue = StringV (if Getenv env ''SSH_INSCRIBE_LOGLEVEL'' \<noteq> []
                           then Getenv env ''SSH_INSCRIBE_LOGLEVEL'' else ''info''),
       Value = StringB P_logLevel\<rparr>,
     \<lparr>Name = ''quiet'', Shorthand = ''q'',
       DefValue = BoolV (Getenv env ''SSH_INSCRIBE_QUIET'' \<noteq> []), Value = BoolB P_Quiet\<rparr>,
     \<lparr>Name = ''login'', Shorthand = ''l'',
       DefValue = StringSliceV (if Getenv env ''SSH_INSCRIBE_LOGIN_AUTH_ENDPOINTS'' \<noteq> []
                                then Split (Getenv env ''SSH_INSCRIBE_LOGIN_AUTH_ENDPOINTS'') CHR '',''
                                else []),
       Value = StringSliceB P_LoginAuthEndpoints\<rparr>,
     \<lparr>Name = ''include'', Shorthand = [],
       DefValue = StringV (Getenv env ''SSH_INSCRIBE_INCLUDE_PRINCIPALS''),
       Value = StringB P_IncludePrincipals\<rparr>,
     \<lparr>Name = ''exclude'', Shorthand = [],
       DefValue = StringV (Getenv env ''SSH_INSCRIBE_EXCLUDE_PRINCIPALS''),
       Value = StringB P_ExcludePrincipals\<rparr>,
     \<lparr>Name = ''expire'', Shorthand = ''e'',
       DefValue = DurationV (if Getenv env ''SSH_INSCRIBE_EXPIRE'' \<noteq> []
                             then fst (ParseDuration lib (Getenv env ''SSH_INSCRIBE_EXPIRE''))
                             else 0),
       Value = DurationB P_CertLifetime\<rparr>,
     \<lparr>Name = ''keytype'', Shorthand = ''t'',
       DefValue = StringV (if Getenv env ''SSH_INSCRIBE_GENKEY_TYPE'' \<noteq> []
                           then Getenv env ''SSH_INSCRIBE_GENKEY_TYPE'' else ''rsa''),
       Value = StringB P_GenerateKeypairType\<rparr>,
     \<lparr>Name = ''keysize'', Shorthand = ''b'',
       DefValue = IntV (if Getenv env ''SSH_INSCRIBE_GENKEY_SIZE'' \<noteq> []
                        then fst (ParseInt lib (Getenv env ''SSH_INSCRIBE_GENKEY_SIZE''))
                        else 2048),
       Value = IntB P_GenerateKeypairSize\<rparr>]"
  by (simp add: started_unfold)

lemma started_bindings_distinct: "distinct (map Value (PersistentFlags (started lib env)))"
  by (simp add: started_flags)

lemma started_load_default:
  "f \<in> set (PersistentFlags (started lib env)) \<Longrightarrow> load (Value f) (started lib env) = DefValue f"
  unfolding started_flags
  apply (simp only: set_simps insert_iff empty_iff)
  apply (elim disjE)
  apply (simp_all add: started_unfold)
  done

subsection \<open>Splitting on a separator\<close>

lemma Split_not_Nil: "Split s c \<noteq> []"
  by (induction s) (auto split: list.splits)

lemma Join_Cons_Cons: "Join ((x # p) # ps) c = x # Join (p # ps) c"
  by (cases ps) simp_all

lemma Join_Split: "Join (Split s c) c = s"
proof (induction s)
  case Nil
  show ?case by simp
next
  case (Cons x s)
  obtain p ps where sp: "Split s c = p # ps"
    using Split_not_Nil by (cases "Split s c") auto
  with Cons show ?case by (auto simp: Join_Cons_Cons)
qed

lemma Split_no_sep: "p \<in> set (Split s c) \<Longrightarrow> c \<notin> set p"
  by (induction s arbitrary: p) (auto split: if_splits list.splits)

lemma flag_not_given_keeps_default:
  assumes "SetFlags given (started lib env) = Inr r"
    and "f \<in> set (PersistentFlags (started lib env))"
    and "Name f \<notin> fst ` set given"
  shows "load (Value f) r = DefValue f"
proof -
  have "load (Value f) r = load (Value f) (started lib env)"
    using SetFlags_frame [OF assms started_bindings_distinct] by simp
  with assms(2) show ?thesis by (simp add: started_load_default)
qed

subsection \<open>Environment variables as flag defaults\<close>

lemma default_of_started:
  "default_of (started lib env) ''url'' = Some (StringV (Getenv env ''SSH_INSCRIBE_URL''))"
  "default_of (started lib env) ''timeout'' =
     Some (DurationV (if Getenv env ''SSH_INSCRIBE_TIMEOUT'' \<noteq> []
                      then fst (ParseDuration lib (Getenv env ''SSH_INSCRIBE_TIMEOUT''))
                      else 2 * Second))"
  "default_of (started lib env) ''retries'' =
     Some (IntV (if Getenv env ''SSH_INSCRIBE_RETRIES'' \<noteq> []
                 then fst (Atoi lib (Getenv env ''SSH_INSCRIBE_RETRIES'')) else 3))"
  "default_of (started lib env) ''keysize'' =
     Some (IntV (if Getenv env ''SSH_INSCRIBE_GENKEY_SIZE'' \<noteq> []
                 then fst (ParseInt lib (Getenv env ''SSH_INSCRIBE_GENKEY_SIZE''))
                 else 2048))"
  by (simp_all add: default_of_def Lookup_def started_flags)

text \<open>
  Claim C1.  Let the flags given on the command line be applied to the state \<open>init\<close>
  leaves.  For each of the twelve variables that is set (non-empty) and whose flag is not
  among the given ones, the variable bound to the flag holds the value derived from the
  environment: \<open>TIMEOUT\<close> and \<open>EXPIRE\<close> as the duration parser reads them, \<open>RETRIES\<close> and
  \<open>GENKEY_SIZE\<close> as the integer parsers read them, \<open>DEBUG\<close>, \<open>INSECURE\<close> and \<open>QUIET\<close> true,
  \<open>LOGLEVEL\<close>, \<open>INCLUDE_PRINCIPALS\<close>, \<open>EXCLUDE_PRINCIPALS\<close> and \<open>GENKEY_TYPE\<close> verbatim, and
  \<open>LOGIN_AUTH_ENDPOINTS\<close> split at its commas: the pieces hold no comma and joined by
  commas give the variable back.
\<close>

theorem env_value_without_flag:
  assumes "SetFlags given (started lib env) = Inr r"
  shows
    "(Getenv env ''SSH_INSCRIBE_TIMEOUT'' \<noteq> [] \<and> ''timeout'' \<notin> fst ` set given \<longrightarrow>
        Timeout (ClientConfig r) = fst (ParseDuration lib (Getenv env ''SSH_INSCRIBE_TIMEOUT'')))
   \<and> (Getenv env ''SSH_INSCRIBE_RETRIES'' \<noteq> [] \<and> ''retries'' \<notin> fst ` set given \<longrightarrow>
        Retries (ClientConfig r) = fst (Atoi lib (Getenv env ''SSH_INSCRIBE_RETRIES'')))
   \<and> (Getenv env ''SSH_INSCRIBE_DEBUG'' \<noteq> [] \<and> ''debug'' \<notin> fst ` set given \<longrightarrow>
        Debug (ClientConfig r))
   \<and> (Getenv env ''SSH_INSCRIBE_INSECURE'' \<noteq> [] \<and> ''insecure'' \<notin> fst ` set given \<longrightarrow>
        Insecure (ClientConfig r))
   \<and> (Getenv env ''SSH_INSCRIBE_LOGLEVEL'' \<noteq> [] \<and> ''loglevel'' \<notin> fst ` set given \<longrightarrow>
        logLevel r = Getenv env ''SSH_INSCRIBE_LOGLEVEL'')
   \<and> (Getenv env ''SSH_INSCRIBE_QUIET'' \<noteq> [] \<and> ''quiet'' \<notin> fst ` set given \<longrightarrow>
        Quiet (ClientConfig r))
   \<and> (Getenv env ''SSH_INSCRIBE_LOGIN_AUTH_ENDPOINTS'' \<noteq> [] \<and> ''login'' \<notin> fst ` set given \<longrightarrow>
        LoginAuthEndpoints (ClientConfig r) =
          Split (Getenv env ''SSH_INSCRIBE_LOGIN_AUTH_ENDPOINTS'') CHR '',''
        \<and> Join (LoginAuthEndpoints (ClientConfig r)) CHR '','' =
            Getenv env ''SSH_INSCRIBE_LOGIN_AUTH_ENDPOINTS''
        \<and> (\<forall>p \<in> set (LoginAuthEndpoints (ClientConfig r)). CHR '','' \<notin> set p))
   \<and> (Getenv env ''SSH_INSCRIBE_INCLUDE_PRINCIPALS'' \<noteq> [] \<and> ''include'' \<notin> fst ` set given \<longrightarrow>
        IncludePrincipals (ClientConfig r) = Getenv env ''SSH_INSCRIBE_INCLUDE_PRINCIPALS'')
   \<and> (Getenv env ''SSH_INSCRIBE_EXCLUDE_PRINCIPALS'' \<noteq> [] \<and> ''exclude'' \<notin> fst ` set given \<longrightarrow>
        ExcludePrincipals (ClientConfig r) = Getenv env ''SSH_INSCRIBE_EXCLUDE_PRINCIPALS'')
   \<and> (Getenv env ''SSH_INSCRIBE_EXPIRE'' \<noteq> [] \<and> ''expire'' \<notin> fst ` set given \<longrightarrow>
        CertLifetime (ClientConfig r) = fst (ParseDuration lib (Getenv env ''SSH_INSCRIBE_EXPIRE'')))
   \<and> (Getenv env ''SSH_INSCRIBE_GENKEY_TYPE'' \<noteq> [] \<and> ''keytype'' \<notin> fst ` set given \<longrightarrow>
        GenerateKeypairType (ClientConfig r) = Getenv env ''SSH_INSCRIBE_GENKEY_TYPE'')
   \<and> (Getenv env ''SSH_INSCRIBE_GENKEY_SIZE'' \<noteq> [] \<and> ''keysize'' \<notin> fst ` set given \<longrightarrow>
        GenerateKeypairSize (ClientConfig r) =
          fst (ParseInt lib (Getenv env ''SSH_INSCRIBE_GENKEY_SIZE'')))"
proof -
  note keep = flag_not_given_keeps_default [OF assms]
  have k_timeout: "''timeout'' \<notin> fst ` set given \<Longrightarrow> load (DurationB P_Timeout) r =
      DurationV (if Getenv env ''SSH_INSCRIBE_TIMEOUT'' \<noteq> []
                 then fst (ParseDuration lib (Getenv env ''SSH_INSCRIBE_TIMEOUT'')) else 2 * Second)"
    using keep [of "PersistentFlags (started lib env) ! 1"] by (simp add: started_flags)
  have k_retries: "''retries'' \<notin> fst ` set given \<Longrightarrow> load (IntB P_Retries) r =
      IntV (if Getenv env ''SSH_INSCRIBE_RETRIES'' \<noteq> []
            then fst (Atoi lib (Getenv env ''SSH_INSCRIBE_RETRIES'')) else 3)"
    using keep [of "PersistentFlags (started lib env) ! 2"] by (simp add: started_flags)
  have k_debug: "''debug'' \<notin> fst ` set given \<Longrightarrow> load (BoolB P_Debug) r =
      BoolV (Getenv env ''SSH_INSCRIBE_DEBUG'' \<noteq> [])"
    using keep [of "PersistentFlags (started lib env) ! 3"] by (simp add: started_flags)
  have k_insecure: "''insecure'' \<notin> fst ` set given \<Longrightarrow> load (BoolB P_Insecure) r =
      BoolV (Getenv env ''SSH_INSCRIBE_INSECURE'' \<noteq> [])"
    using keep [of "PersistentFlags (started lib env) ! 4"] by (simp add: started_flags)
  have k_loglevel: "''loglevel'' \<notin> fst ` set given \<Longrightarrow> load (StringB P_logLevel) r =
      StringV (if Getenv env ''SSH_INSCRIBE_LOGLEVEL'' \<noteq> []
               then Getenv env ''SSH_INSCRIBE_LOGLEVEL'' else ''info'')"
    using keep [of "PersistentFlags (started lib env) ! 5"] by (simp add: started_flags)
  have k_quiet: "''quiet'' \<notin> fst ` set given \<Longrightarrow> load (BoolB P_Quiet) r =
      BoolV (Getenv env ''SSH_INSCRIBE_QUIET'' \<noteq> [])"
    using keep [of "PersistentFlags (started lib env) ! 6"] by (simp add: started_flags)
  have k_login: "''login'' \<notin> fst ` set given \<Longrightarrow> load (StringSliceB P_LoginAuthEndpoints) r =
      StringSliceV (if Getenv env ''SSH_INSCRIBE_LOGIN_AUTH_ENDPOINTS'' \<noteq> []
                    then Split (Getenv env ''SSH_INSCRIBE_LOGIN_AUTH_ENDPOINTS'') CHR '','' else [])"
    using keep [of "PersistentFlags (started lib env) ! 7"] by (simp add: started_flags)
  have k_include: "''include'' \<notin> fst ` set given \<Longrightarrow> load (StringB P_IncludePrincipals) r =
      StringV (Getenv env ''SSH_INSCRIBE_INCLUDE_PRINCIPALS'')"
    using keep [of "PersistentFlags (started lib env) ! 8"] by (simp add: started_flags)
  have k_exclude: "''exclude'' \<notin> fst ` set given \<Longrightarrow> load (StringB P_ExcludePrincipals) r =
      StringV (Getenv env ''SSH_INSCRIBE_EXCLUDE_PRINCIPALS'')"
    using keep [of "PersistentFlags (started lib env) ! 9"] by (simp add: started_flags)
  have k_expire: "''expire'' \<notin> fst ` set given \<Longrightarrow> load (DurationB P_CertLifetime) r =
      DurationV (if Getenv env ''SSH_INSCRIBE_EXPIRE'' \<noteq> []
                 then fst (ParseDuration lib (Getenv env ''SSH_INSCRIBE_EXPIRE'')) else 0)"
    using keep [of "PersistentFlags (started lib env) ! 10"] by (simp add: started_flags)
  have k_keytype: "''keytype'' \<notin> fst ` set given \<Longrightarrow> load (StringB P_GenerateKeypairType) r =
      StringV (if Getenv env ''SSH_INSCRIBE_GENKEY_TYPE'' \<noteq> []
               then Getenv env ''SSH_INSCRIBE_GENKEY_TYPE'' else ''rsa'')"
    using keep [of "PersistentFlags (started lib env) ! 11"] by (simp add: started_flags)
  have k_keysize: "''keysize'' \<notin> fst ` set given \<Longrightarrow> load (IntB P_GenerateKeypairSize) r =
      IntV (if Getenv env ''SSH_INSCRIBE_GENKEY_SIZE'' \<noteq> []
            then fst (ParseInt lib (Getenv env ''SSH_INSCRIBE_GENKEY_SIZE'')) else 2048)"
    using keep [of "PersistentFlags (started lib env) ! 12"] by (simp add: started_flags)
  show ?thesis
    using k_timeout k_retries k_debug k_insecure k_loglevel k_quiet k_login k_include
      k_exclude k_expire k_keytype k_keysize
    by (simp add: Join_Split Split_no_sep)
qed

lemma Getenv_all_set:
  "Getenv env_all_set ''SSH_INSCRIBE_URL'' = ''https://ca.example''"
  "Getenv env_all_set ''SSH_INSCRIBE_TIMEOUT'' = ''5s''"
  "Getenv env_all_set ''SSH_INSCRIBE_RETRIES'' = ''7''"
  "Getenv env_all_set ''SSH_INSCRIBE_DEBUG'' = ''1''"
  "Getenv env_all_set ''SSH_INSCRIBE_INSECURE'' = ''yes''"
  "Getenv env_all_set ''SSH_INSCRIBE_LOGLEVEL'' = ''debug''"
  "Getenv env_all_set ''SSH_INSCRIBE_QUIET'' = ''true''"
  "Getenv env_all_set ''SSH_INSCRIBE_LOGIN_AUTH_ENDPOINTS'' = ''pw,oidc''"
  "Getenv env_all_set ''SSH_INSCRIBE_INCLUDE_PRINCIPALS'' = ''d*''"
  "Getenv env_all_set ''SSH_INSCRIBE_EXCLUDE_PRINCIPALS'' = ''root''"
  "Getenv env_all_set ''SSH_INSCRIBE_EXPIRE'' = ''10m''"
  "Getenv env_all_set ''SSH_INSCRIBE_GENKEY_TYPE'' = ''ed25519''"
  "Getenv env_all_set ''SSH_INSCRIBE_GENKEY_SIZE'' = ''4096''"
  by (simp_all add: Getenv_def env_all_set_def)

lemma go64_simps:
  "ParseDuration go64 = ParseWholeDuration" "Atoi go64 = Atoi64" "ParseInt go64 = Atoi64"
  "ToLower go64 = asciiToLower" "Setup go64 = (\<lambda>level. None)"
  "ParseFlags go64 = (\<lambda>args r. (r, None))"
  by (simp_all add: go64_def)

lemma parse_samples:
  "Atoi64 ''7'' = (7, None)"
  "Atoi64 ''4096'' = (4096, None)"
  "ParseWholeDuration ''5s'' = (5000000000, None)"
  "ParseWholeDuration ''10m'' = (600000000000, None)"
  by (simp_all add: Atoi64_def ParseWholeDuration_def digit_def unit_ns_def Second_def)

lemma run_given_insecure:
  "SetFlags [(''insecure'', BoolV False)] (started go64 env_all_set) =
     Inr (store_bool P_Insecure False (started go64 env_all_set))"
  by (simp add: Lookup_def started_flags)

theorem env_value_without_flag_witness:
  "SetFlags [(''insecure'', BoolV False)] (started go64 env_all_set) =
     Inr (store_bool P_Insecure False (started go64 env_all_set))
   \<and> Timeout (ClientConfig (store_bool P_Insecure False (started go64 env_all_set))) = 5000000000
   \<and> Retries (ClientConfig (store_bool P_Insecure False (started go64 env_all_set))) = 7
   \<and> Debug (ClientConfig (store_bool P_Insecure False (started go64 env_all_set)))
   \<and> logLevel (store_bool P_Insecure False (started go64 env_all_set)) = ''debug''
   \<and> Quiet (ClientConfig (store_bool P_Insecure False (started go64 env_all_set)))
   \<and> LoginAuthEndpoints (ClientConfig (store_bool P_Insecure False (started go64 env_all_set))) =
        [''pw'', ''oidc'']
   \<and> IncludePrincipals (ClientConfig (store_bool P_Insecure False (started go64 env_all_set))) =
        ''d*''
   \<and> ExcludePrincipals (ClientConfig (store_bool P_Insecure False (started go64 env_all_set))) =
        ''root''
   \<and> CertLifetime (ClientConfig (store_bool P_Insecure False (started go64 env_all_set))) =
        600000000000
   \<and> GenerateKeypairType (ClientConfig (store_bool P_Insecure False (started go64 env_all_set))) =
        ''ed25519''
   \<and> GenerateKeypairSize (ClientConfig (store_bool P_Insecure False (started go64 env_all_set))) =
        4096"
  using env_value_without_flag [OF run_given_insecure] run_given_insecure
  by (simp add: Getenv_all_set go64_simps parse_samples del: store_bool.simps SetFlags.simps)

subsection \<open>The server address and malformed numbers\<close>

lemma started_quiet_output: "stdout (started lib env) = [] \<and> stderr (started lib env) = []"
  by (simp add: started_unfold)

text \<open>
  Claim C2.  After \<open>init\<close> the default of the flag \<open>url\<close> is the value of
  \<open>SSH_INSCRIBE_URL\<close> in the environment, the empty string when the variable is unset; and
  when \<open>url\<close> is not among the flags given, \<open>ClientConfig.URL\<close> is that value.
\<close>

theorem url_default_is_env:
  "default_of (started lib env) ''url'' = Some (StringV (Getenv env ''SSH_INSCRIBE_URL''))
   \<and> (env ''SSH_INSCRIBE_URL'' = None \<longrightarrow> Getenv env ''SSH_INSCRIBE_URL'' = [])
   \<and> (SetFlags given (started lib env) = Inr r \<and> ''url'' \<notin> fst ` set given \<longrightarrow>
        URL (ClientConfig r) = Getenv env ''SSH_INSCRIBE_URL'')"
proof -
  have "URL (ClientConfig r) = Getenv env ''SSH_INSCRIBE_URL''"
    if "SetFlags given (started lib env) = Inr r" and "''url'' \<notin> fst ` set given"
    using flag_not_given_keeps_default [OF that(1), of "PersistentFlags (started lib env) ! 0"] that(2)
    by (simp add: started_flags)
  then show ?thesis by (simp add: default_of_started Getenv_def)
qed

lemma Getenv_empty: "Getenv Map.empty k = []"
  by (simp add: Getenv_def)

theorem url_default_is_env_witness:
  "default_of (started go64 env_all_set) ''url'' = Some (StringV ''https://ca.example'')
   \<and> default_of (started go64 Map.empty) ''url'' = Some (StringV [])
   \<and> SetFlags [(''insecure'', BoolV False)] (started go64 env_all_set) =
        Inr (store_bool P_Insecure False (started go64 env_all_set))
   \<and> URL (ClientConfig (store_bool P_Insecure False (started go64 env_all_set))) =
        ''https://ca.example''"
  using url_default_is_env [of go64 env_all_set "[(''insecure'', BoolV False)]"
      "store_bool P_Insecure False (started go64 env_all_set)"]
    url_default_is_env [of go64 Map.empty "[]" "started go64 Map.empty"]
    run_given_insecure
  by (simp add: Getenv_all_set Getenv_empty del: store_bool.simps SetFlags.simps)

text \<open>
  Claim C8.  When \<open>SSH_INSCRIBE_TIMEOUT\<close>, \<open>SSH_INSCRIBE_RETRIES\<close> or
  \<open>SSH_INSCRIBE_GENKEY_SIZE\<close> is set and its parser fails, returning Go's zero value next to
  the error, the error is dropped: nothing is printed, and the default of the flag and the
  bound variable are 0 instead of the built-in 2s, 3 and 2048.
\<close>

theorem parse_error_zero_default:
  "(Getenv env ''SSH_INSCRIBE_TIMEOUT'' \<noteq> []
      \<and> ParseDuration lib (Getenv env ''SSH_INSCRIBE_TIMEOUT'') = (0, Some e1) \<longrightarrow>
        default_of (started lib env) ''timeout'' = Some (DurationV 0)
        \<and> default_of (started lib env) ''timeout'' \<noteq> Some (DurationV (2 * Second))
        \<and> Timeout (ClientConfig (started lib env)) = 0)
   \<and> (Getenv env ''SSH_INSCRIBE_RETRIES'' \<noteq> []
      \<and> Atoi lib (Getenv env ''SSH_INSCRIBE_RETRIES'') = (0, Some e2) \<longrightarrow>
        default_of (started lib env) ''retries'' = Some (IntV 0)
        \<and> default_of (started lib env) ''retries'' \<noteq> Some (IntV 3)
        \<and> Retries (ClientConfig (started lib env)) = 0)
   \<and> (Getenv env ''SSH_INSCRIBE_GENKEY_SIZE'' \<noteq> []
      \<and> ParseInt lib (Getenv env ''SSH_INSCRIBE_GENKEY_SIZE'') = (0, Some e3) \<longrightarrow>
        default_of (started lib env) ''keysize'' = Some (IntV 0)
        \<and> default_of (started lib env) ''keysize'' \<noteq> Some (IntV 2048)
        \<and> GenerateKeypairSize (ClientConfig (started lib env)) = 0)
   \<and> stdout (started lib env) = [] \<and> stderr (started lib env) = []"
proof -
  have t: "Timeout (ClientConfig (started lib env)) =
      (if Getenv env ''SSH_INSCRIBE_TIMEOUT'' \<noteq> []
       then fst (ParseDuration lib (Getenv env ''SSH_INSCRIBE_TIMEOUT'')) else 2 * Second)"
    by (simp add: started_unfold)
  have r: "Retries (ClientConfig (started lib env)) =
      (if Getenv env ''SSH_INSCRIBE_RETRIES'' \<noteq> []
       then fst (Atoi lib (Getenv env ''SSH_INSCRIBE_RETRIES'')) else 3)"
    by (simp add: started_unfold)
  have k: "GenerateKeypairSize (ClientConfig (started lib env)) =
      (if Getenv env ''SSH_INSCRIBE_GENKEY_SIZE'' \<noteq> []
       then fst (ParseInt lib (Getenv env ''SSH_INSCRIBE_GENKEY_SIZE'')) else 2048)"
    by (simp add: started_unfold)
  show ?thesis
    by (simp add: default_of_started t r k started_quiet_output Second_def)
qed

lemma Getenv_malformed:
  "Getenv env_malformed ''SSH_INSCRIBE_TIMEOUT'' = ''soon''"
  "Getenv env_malformed ''SSH_INSCRIBE_RETRIES'' = ''many''"
  "Getenv env_malformed ''SSH_INSCRIBE_GENKEY_SIZE'' = ''big''"
  by (simp_all add: Getenv_def env_malformed_def)

lemma parse_malformed:
  "ParseWholeDuration ''soon'' = (0, Some ''invalid duration'')"
  "Atoi64 ''many'' = (0, Some ''invalid syntax'')"
  "Atoi64 ''big'' = (0, Some ''invalid syntax'')"
  by (simp_all add: Atoi64_def ParseWholeDuration_def digit_def unit_ns_def Second_def)

theorem parse_error_zero_default_witness:
  "default_of (started go64 env_malformed) ''timeout'' = Some (DurationV 0)
   \<and> default_of (started go64 env_malformed) ''retries'' = Some (IntV 0)
   \<and> default_of (started go64 env_malformed) ''keysize'' = Some (IntV 0)
   \<and> Timeout (ClientConfig (started go64 env_malformed)) = 0
   \<and> Retries (ClientConfig (started go64 env_malformed)) = 0
   \<and> GenerateKeypairSize (ClientConfig (started go64 env_malformed)) = 0"
  using parse_error_zero_default [of env_malformed go64 "''invalid duration''"
      "''invalid syntax''" "''invalid syntax''"]
  by (simp add: Getenv_malformed go64_simps parse_malformed)

subsection \<open>Start-up failures and the injected separator\<close>

lemma rootInit_cases:
  "rootInit lib r =
     (case Setup lib (logLevel r) of
        Some err \<Rightarrow> Exit 1 (r\<lparr>DefaultLevel := logLevel r, stderr := stderr r @ [err]\<rparr>)
      | None \<Rightarrow> Continue (r\<lparr>DefaultLevel := logLevel r\<rparr>))"
  by (simp add: rootInit_def Let_def split: option.splits)

lemma rootInit_Exit: "rootInit lib r = Exit c r1 \<Longrightarrow> c = 1"
  by (auto simp: rootInit_cases split: option.splits)

lemma rootInit_not_Panic: "rootInit lib r \<noteq> Panic msg"
  by (auto simp: rootInit_cases split: option.splits)

lemma ignoreFlagsAfter_Exit: "ignoreFlagsAfter lib cmds osArgs r = Exit c r2 \<Longrightarrow> c = 1"
  by (auto simp: ignoreFlagsAfter_def split: option.splits prod.splits dest: rootInit_Exit)

text \<open>
  Claim C3.  When the logging set-up fails in \<open>rootInit\<close>, or the parsing of the persistent
  flags fails in \<open>ignoreFlagsAfter\<close> (or the set-up fails when \<open>rootInit\<close> is run again
  after the parse), the error is printed and the process exits with code 1; and whenever
  one of the two functions ends the process, the code is 1.
\<close>

theorem startup_failure_exit_code:
  "(Setup lib (logLevel r) = Some err \<longrightarrow>
      rootInit lib r = Exit 1 (r\<lparr>DefaultLevel := logLevel r, stderr := stderr r @ [err]\<rparr>))
   \<and> (injectArgs lib cmds osArgs = Some args \<and> ParseFlags lib args r = (r', Some err) \<longrightarrow>
      ignoreFlagsAfter lib cmds osArgs r = Exit 1 (r'\<lparr>stdout := stdout r' @ [err]\<rparr>))
   \<and> (injectArgs lib cmds osArgs = Some args \<and> ParseFlags lib args r = (r', None)
        \<and> Setup lib (logLevel r') = Some err \<longrightarrow>
      ignoreFlagsAfter lib cmds osArgs r =
        Exit 1 (r'\<lparr>DefaultLevel := logLevel r', stderr := stderr r' @ [err]\<rparr>))
   \<and> (rootInit lib r = Exit c r1 \<longrightarrow> c = 1)
   \<and> (ignoreFlagsAfter lib cmds osArgs r = Exit c r2 \<longrightarrow> c = 1)"
  using rootInit_Exit [of lib r c r1] ignoreFlagsAfter_Exit [of lib cmds osArgs r c r2]
  by (auto simp: rootInit_cases ignoreFlagsAfter_def)

lemma index_bool_mkIgnoreFlags:
  "index_bool (mkIgnoreFlags cmds m) k = (k \<in> set cmds \<or> index_bool m k)"
  by (induction cmds arbitrary: m) (auto simp: index_bool_def)

lemma index_bool_cmds: "index_bool (mkIgnoreFlags cmds Map.empty) k = (k \<in> set cmds)"
  by (simp add: index_bool_mkIgnoreFlags) (simp add: index_bool_def)

lemma cmdIndexLoop_none:
  "\<forall>a \<in> set args. \<not> index_bool m (ToLower lib a) \<Longrightarrow> cmdIndexLoop lib m i args k = k"
  by (induction args arbitrary: i k) auto

lemma cmdIndexLoop_some:
  "\<exists>a \<in> set args. index_bool m (ToLower lib a) \<Longrightarrow>
   \<exists>j < length args. cmdIndexLoop lib m i args k = i + j
     \<and> index_bool m (ToLower lib (args ! j))
     \<and> (\<forall>j'. j < j' \<and> j' < length args \<longrightarrow> \<not> index_bool m (ToLower lib (args ! j')))"
proof (induction args arbitrary: i k)
  case Nil
  then show ?case by simp
next
  case (Cons a rest)
  show ?case
  proof (cases "\<exists>b \<in> set rest. index_bool m (ToLower lib b)")
    case True
    from Cons.IH [OF True, of "Suc i" "if index_bool m (ToLower lib a) then i else k"]
    obtain j where j: "j < length rest"
      "cmdIndexLoop lib m (Suc i) rest (if index_bool m (ToLower lib a) then i else k) = Suc i + j"
      "index_bool m (ToLower lib (rest ! j))"
      "\<forall>j'. j < j' \<and> j' < length rest \<longrightarrow> \<not> index_bool m (ToLower lib (rest ! j'))"
      by blast
    have "\<forall>j'. Suc j < j' \<and> j' < length (a # rest) \<longrightarrow>
            \<not> index_bool m (ToLower lib ((a # rest) ! j'))"
    proof (intro allI impI)
      fix j' assume h: "Suc j < j' \<and> j' < length (a # rest)"
      then obtain q where q: "j' = Suc q" by (cases j') auto
      with h j(4) show "\<not> index_bool m (ToLower lib ((a # rest) ! j'))" by simp
    qed
    with j show ?thesis
      by (intro exI [of _ "Suc j"]) simp
  next
    case False
    with Cons.prems have a: "index_bool m (ToLower lib a)" by auto
    from False have "cmdIndexLoop lib m (Suc i) rest i = i"
      by (intro cmdIndexLoop_none) simp
    moreover have "\<forall>j'. 0 < j' \<and> j' < length (a # rest) \<longrightarrow>
            \<not> index_bool m (ToLower lib ((a # rest) ! j'))"
    proof (intro allI impI)
      fix j' assume h: "0 < j' \<and> j' < length (a # rest)"
      then obtain q where q: "j' = Suc q" by (cases j') auto
      with h False show "\<not> index_bool m (ToLower lib ((a # rest) ! j'))" by auto
    qed
    ultimately show ?thesis using a
      by (intro exI [of _ 0]) simp
  qed
qed

lemma cmdIndexOf_spec:
  assumes "osArgs \<noteq> []"
  shows "cmdIndexOf lib cmds osArgs < length osArgs"
    and "(\<forall>j < length osArgs. ToLower lib (osArgs ! j) \<notin> set cmds) \<Longrightarrow>
           cmdIndexOf lib cmds osArgs = 0"
    and "(\<exists>j < length osArgs. ToLower lib (osArgs ! j) \<in> set cmds) \<Longrightarrow>
           ToLower lib (osArgs ! cmdIndexOf lib cmds osArgs) \<in> set cmds
           \<and> (\<forall>j. cmdIndexOf lib cmds osArgs < j \<and> j < length osArgs \<longrightarrow>
                  ToLower lib (osArgs ! j) \<notin> set cmds)"
proof -
  let ?m = "mkIgnoreFlags cmds Map.empty"
  have none: "cmdIndexOf lib cmds osArgs = 0"
    if "\<forall>j < length osArgs. ToLower lib (osArgs ! j) \<notin> set cmds"
  proof -
    from that have "\<forall>a \<in> set osArgs. \<not> index_bool ?m (ToLower lib a)"
      by (auto simp: index_bool_cmds in_set_conv_nth)
    then show ?thesis unfolding cmdIndexOf_def by (rule cmdIndexLoop_none)
  qed
  have some: "\<exists>j < length osArgs. cmdIndexOf lib cmds osArgs = j
      \<and> ToLower lib (osArgs ! j) \<in> set cmds
      \<and> (\<forall>j'. j < j' \<and> j' < length osArgs \<longrightarrow> ToLower lib (osArgs ! j') \<notin> set cmds)"
    if "\<exists>j < length osArgs. ToLower lib (osArgs ! j) \<in> set cmds"
  proof -
    from that have "\<exists>a \<in> set osArgs. index_bool ?m (ToLower lib a)"
      by (auto simp: index_bool_cmds)
    from cmdIndexLoop_some [OF this, of 0 0] show ?thesis
      unfolding cmdIndexOf_def by (simp add: index_bool_cmds)
  qed
  show "cmdIndexOf lib cmds osArgs < length osArgs"
  proof (cases "\<exists>j < length osArgs. ToLower lib (osArgs ! j) \<in> set cmds")
    case True
    from some [OF True] show ?thesis by auto
  next
    case False
    then have "cmdIndexOf lib cmds osArgs = 0" by (intro none) auto
    with assms show ?thesis by simp
  qed
  show "(\<forall>j < length osArgs. ToLower lib (osArgs ! j) \<notin> set cmds) \<Longrightarrow>
           cmdIndexOf lib cmds osArgs = 0"
    by (rule none)
  show "(\<exists>j < length osArgs. ToLower lib (osArgs ! j) \<in> set cmds) \<Longrightarrow>
           ToLower lib (osArgs ! cmdIndexOf lib cmds osArgs) \<in> set cmds
           \<and> (\<forall>j. cmdIndexOf lib cmds osArgs < j \<and> j < length osArgs \<longrightarrow>
                  ToLower lib (osArgs ! j) \<notin> set cmds)"
    using some by auto
qed

text \<open>
  Claim C10.  For a non-empty argument vector, \<open>ignoreFlagsAfter\<close> hands to the parser the
  vector with \<open>--\<close> inserted right after position \<open>cmdIndex\<close>: the last position whose
  lower-cased argument is one of the given names, or 0 when there is none.  All arguments
  that followed that position come after the separator, unchanged; and when the parse
  succeeds the result is that of running \<open>rootInit\<close> again.
\<close>

theorem ignoreFlagsAfter_separator:
  assumes "osArgs \<noteq> []"
  shows "cmdIndexOf lib cmds osArgs < length osArgs
   \<and> ((\<forall>j < length osArgs. ToLower lib (osArgs ! j) \<notin> set cmds) \<longrightarrow>
         cmdIndexOf lib cmds osArgs = 0)
   \<and> ((\<exists>j < length osArgs. ToLower lib (osArgs ! j) \<in> set cmds) \<longrightarrow>
         ToLower lib (osArgs ! cmdIndexOf lib cmds osArgs) \<in> set cmds
         \<and> (\<forall>j. cmdIndexOf lib cmds osArgs < j \<and> j < length osArgs \<longrightarrow>
                ToLower lib (osArgs ! j) \<notin> set cmds))
   \<and> injectArgs lib cmds osArgs =
        Some (take (cmdIndexOf lib cmds osArgs + 1) osArgs @ [''--'']
              @ drop (cmdIndexOf lib cmds osArgs + 1) osArgs)
   \<and> (injectArgs lib cmds osArgs = Some args \<longrightarrow>
        args ! (cmdIndexOf lib cmds osArgs + 1) = ''--''
        \<and> take (cmdIndexOf lib cmds osArgs + 1) args = take (cmdIndexOf lib cmds osArgs + 1) osArgs
        \<and> drop (cmdIndexOf lib cmds osArgs + 2) args = drop (cmdIndexOf lib cmds osArgs + 1) osArgs
        \<and> ignoreFlagsAfter lib cmds osArgs r =
            (case ParseFlags lib args r of
               (r', Some err) \<Rightarrow> Exit 1 (r'\<lparr>stdout := stdout r' @ [err]\<rparr>)
             | (r', None) \<Rightarrow> rootInit lib r'))"
proof -
  let ?k = "cmdIndexOf lib cmds osArgs"
  note spec = cmdIndexOf_spec [OF assms, of lib cmds]
  have k: "?k < length osArgs" by (rule spec(1))
  have inj: "injectArgs lib cmds osArgs =
      Some (take (?k + 1) osArgs @ [''--''] @ drop (?k + 1) osArgs)"
    using k by (simp add: injectArgs_def Let_def)
  have len: "length (take (?k + 1) osArgs) = ?k + 1" using k by simp
  have shape: "(take (?k + 1) osArgs @ [''--''] @ drop (?k + 1) osArgs) ! (?k + 1) = ''--''
      \<and> take (?k + 1) (take (?k + 1) osArgs @ [''--''] @ drop (?k + 1) osArgs) = take (?k + 1) osArgs
      \<and> drop (?k + 2) (take (?k + 1) osArgs @ [''--''] @ drop (?k + 1) osArgs) = drop (?k + 1) osArgs"
    using len by (simp add: nth_append)
  have c2: "(\<forall>j < length osArgs. ToLower lib (osArgs ! j) \<notin> set cmds) \<longrightarrow> ?k = 0"
    using spec(2) by blast
  have c3: "(\<exists>j < length osArgs. ToLower lib (osArgs ! j) \<in> set cmds) \<longrightarrow>
         ToLower lib (osArgs ! ?k) \<in> set cmds
         \<and> (\<forall>j. ?k < j \<and> j < length osArgs \<longrightarrow> ToLower lib (osArgs ! j) \<notin> set cmds)"
    using spec(3) by blast
  have c5: "injectArgs lib cmds osArgs = Some args \<longrightarrow>
        args ! (?k + 1) = ''--''
        \<and> take (?k + 1) args = take (?k + 1) osArgs
        \<and> drop (?k + 2) args = drop (?k + 1) osArgs
        \<and> ignoreFlagsAfter lib cmds osArgs r =
            (case ParseFlags lib args r of
               (r', Some err) \<Rightarrow> Exit 1 (r'\<lparr>stdout := stdout r' @ [err]\<rparr>)
             | (r', None) \<Rightarrow> rootInit lib r')"
  proof
    assume a: "injectArgs lib cmds osArgs = Some args"
    with inj have args: "args = take (?k + 1) osArgs @ [''--''] @ drop (?k + 1) osArgs"
      by simp
    have run: "ignoreFlagsAfter lib cmds osArgs r =
            (case ParseFlags lib args r of
               (r', Some err) \<Rightarrow> Exit 1 (r'\<lparr>stdout := stdout r' @ [err]\<rparr>)
             | (r', None) \<Rightarrow> rootInit lib r')"
      unfolding ignoreFlagsAfter_def a by simp
    from shape run show "args ! (?k + 1) = ''--''
        \<and> take (?k + 1) args = take (?k + 1) osArgs
        \<and> drop (?k + 2) args = drop (?k + 1) osArgs
        \<and> ignoreFlagsAfter lib cmds osArgs r =
            (case ParseFlags lib args r of
               (r', Some err) \<Rightarrow> Exit 1 (r'\<lparr>stdout := stdout r' @ [err]\<rparr>)
             | (r', None) \<Rightarrow> rootInit lib r')"
      unfolding args by blast
  qed
  show ?thesis
    by (rule conjI [OF k conjI [OF c2 conjI [OF c3 conjI [OF inj c5]]]])
qed

lemma sample_cmdIndex:
  "cmdIndexOf go64 [''ssh''] [''sshi'', ''--debug'', ''SSH'', ''-A'', ''host''] = 2"
  by (simp add: cmdIndexOf_def index_bool_def go64_simps asciiToLower_def)

lemma sample_injectArgs:
  "injectArgs go64 [''ssh''] [''sshi'', ''--debug'', ''SSH'', ''-A'', ''host''] =
     Some [''sshi'', ''--debug'', ''SSH'', ''--'', ''-A'', ''host'']"
  by (simp add: injectArgs_def sample_cmdIndex)

theorem ignoreFlagsAfter_separator_witness:
  "[''sshi'', ''--debug'', ''SSH'', ''-A'', ''host''] \<noteq> []
   \<and> cmdIndexOf go64 [''ssh''] [''sshi'', ''--debug'', ''SSH'', ''-A'', ''host''] = 2
   \<and> injectArgs go64 [''ssh''] [''sshi'', ''--debug'', ''SSH'', ''-A'', ''host''] =
        Some [''sshi'', ''--debug'', ''SSH'', ''--'', ''-A'', ''host'']
   \<and> ignoreFlagsAfter go64 [''ssh''] [''sshi'', ''--debug'', ''SSH'', ''-A'', ''host''] root0 =
        Continue (root0\<lparr>DefaultLevel := ''info''\<rparr>)"
proof -
  have ne: "[''sshi'', ''--debug'', ''SSH'', ''-A'', ''host''] \<noteq> []" by simp
  have "ignoreFlagsAfter go64 [''ssh''] [''sshi'', ''--debug'', ''SSH'', ''-A'', ''host''] root0 =
      (case ParseFlags go64 [''sshi'', ''--debug'', ''SSH'', ''--'', ''-A'', ''host''] root0 of
         (r', Some err) \<Rightarrow> Exit 1 (r'\<lparr>stdout := stdout r' @ [err]\<rparr>)
       | (r', None) \<Rightarrow> rootInit go64 r')"
    using ignoreFlagsAfter_separator [OF ne, of go64 "[''ssh'']"
        "[''sshi'', ''--debug'', ''SSH'', ''--'', ''-A'', ''host'']" root0]
      sample_injectArgs by blast
  then have "ignoreFlagsAfter go64 [''ssh''] [''sshi'', ''--debug'', ''SSH'', ''-A'', ''host''] root0 =
      Continue (root0\<lparr>DefaultLevel := ''info''\<rparr>)"
    by (simp add: go64_simps rootInit_cases root0_def)
  with ne sample_cmdIndex sample_injectArgs show ?thesis by blast
qed

theorem startup_failure_exit_code_witness:
  "rootInit (go64\<lparr>Setup := \<lambda>level. Some ''unknown level''\<rparr>) root0 =
     Exit 1 (root0\<lparr>DefaultLevel := ''info'', stderr := [''unknown level'']\<rparr>)
   \<and> ignoreFlagsAfter (go64\<lparr>ParseFlags := \<lambda>args r. (r, Some ''unknown flag: --debgu'')\<rparr>)
        [''ssh''] [''sshi'', ''--debgu'', ''ssh''] root0 =
     Exit 1 (root0\<lparr>stdout := [''unknown flag: --debgu'']\<rparr>)"
proof -
  have i: "injectArgs (go64\<lparr>ParseFlags := \<lambda>args r. (r, Some ''unknown flag: --debgu'')\<rparr>)
      [''ssh''] [''sshi'', ''--debgu'', ''ssh''] = Some [''sshi'', ''--debgu'', ''ssh'', ''--'']"
    by (simp add: injectArgs_def cmdIndexOf_def index_bool_def go64_def asciiToLower_def)
  have a: "rootInit (go64\<lparr>Setup := \<lambda>level. Some ''unknown level''\<rparr>) root0 =
     Exit 1 (root0\<lparr>DefaultLevel := logLevel root0, stderr := stderr root0 @ [''unknown level'']\<rparr>)"
    using startup_failure_exit_code
      [of "go64\<lparr>Setup := \<lambda>level. Some ''unknown level''\<rparr>" root0 "''unknown level''"]
    by simp
  have b: "ignoreFlagsAfter (go64\<lparr>ParseFlags := \<lambda>args r. (r, Some ''unknown flag: --debgu'')\<rparr>)
        [''ssh''] [''sshi'', ''--debgu'', ''ssh''] root0 =
     Exit 1 (root0\<lparr>stdout := stdout root0 @ [''unknown flag: --debgu'']\<rparr>)"
    using startup_failure_exit_code
      [of "go64\<lparr>ParseFlags := \<lambda>args r. (r, Some ''unknown flag: --debgu'')\<rparr>" root0
          "''unknown flag: --debgu''" "[''ssh'']" "[''sshi'', ''--debgu'', ''ssh'']"
          "[''sshi'', ''--debgu'', ''ssh'', ''--'']" root0] i
    by simp
  from a b show ?thesis by (simp add: root0_def)
qed

section \<open>Properties of the signing server\<close>

subsection \<open>Effective principals\<close>

lemma merged_subset: "set (merged_principals ext ids) \<subseteq> (\<Union>i \<in> set ids. set (principals i))"
  by (auto simp: merged_principals_def)

lemma set_apply_include:
  "set (apply_include ext g ps) = {p \<in> set ps. \<forall>q. g = Some q \<longrightarrow> glob ext q p}"
  by (cases g) (auto simp: apply_include_def)

lemma set_apply_exclude:
  "set (apply_exclude ext g ps) = {p \<in> set ps. \<forall>q. g = Some q \<longrightarrow> \<not> glob ext q p}"
  by (cases g) (auto simp: apply_exclude_def)

lemma filters_none: "apply_exclude ext None (apply_include ext None ps) = ps"
  by (simp add: apply_include_def apply_exclude_def)

lemma get_cert_no_principals:
  assumes "find_session srv now sid = Inr c" "certificate c = None" "stage c = Ready"
    "lifetime_of pol rq = Inr lt" "effective_principals ext (identities c) rq = Inl e"
  shows "get_cert pol ext now sid rq srv = (Failed e, srv)"
  using assms by (simp add: get_cert_def)

text \<open>
  Claim C5.  The effective principals of a request are the merged principals of the
  identities after the include glob has kept its matches and the exclude glob has then
  dropped its matches (an absent glob filters nothing); they are among the principals of
  the identities; and when nothing is left the result is NoEligiblePrincipals, with which
  get-cert fails without signing.
\<close>

theorem effective_principals_filtered:
  "(effective_principals ext ids rq = Inr ps \<longrightarrow>
      ps \<noteq> []
      \<and> ps = apply_exclude ext (exclude_glob rq)
               (apply_include ext (include_glob rq) (merged_principals ext ids))
      \<and> set ps \<subseteq> (\<Union>i \<in> set ids. set (principals i))
      \<and> set ps = {p \<in> set (merged_principals ext ids).
                    (\<forall>q. include_glob rq = Some q \<longrightarrow> glob ext q p)
                    \<and> (\<forall>q. exclude_glob rq = Some q \<longrightarrow> \<not> glob ext q p)})
   \<and> (include_glob rq = None \<and> exclude_glob rq = None \<and> merged_principals ext ids \<noteq> [] \<longrightarrow>
      effective_principals ext ids rq = Inr (merged_principals ext ids))
   \<and> (apply_exclude ext (exclude_glob rq)
        (apply_include ext (include_glob rq) (merged_principals ext ids)) = [] \<longrightarrow>
      effective_principals ext ids rq = Inl NoEligiblePrincipals
      \<and> (find_session srv now sid = Inr c \<and> certificate c = None \<and> stage c = Ready
           \<and> ids = identities c \<and> lifetime_of pol rq = Inr lt \<longrightarrow>
          get_cert pol ext now sid rq srv = (Failed NoEligiblePrincipals, srv)))"
proof -
  let ?ps = "apply_exclude ext (exclude_glob rq)
               (apply_include ext (include_glob rq) (merged_principals ext ids))"
  have sub: "set ?ps \<subseteq> (\<Union>i \<in> set ids. set (principals i))"
    using merged_subset [of ext ids] by (auto simp: set_apply_exclude set_apply_include)
  have eq: "set ?ps = {p \<in> set (merged_principals ext ids).
                    (\<forall>q. include_glob rq = Some q \<longrightarrow> glob ext q p)
                    \<and> (\<forall>q. exclude_glob rq = Some q \<longrightarrow> \<not> glob ext q p)}"
    by (auto simp: set_apply_exclude set_apply_include)
  have a: "effective_principals ext ids rq = Inr ps \<longrightarrow>
      ps \<noteq> [] \<and> ps = ?ps \<and> set ps \<subseteq> (\<Union>i \<in> set ids. set (principals i))
      \<and> set ps = {p \<in> set (merged_principals ext ids).
                    (\<forall>q. include_glob rq = Some q \<longrightarrow> glob ext q p)
                    \<and> (\<forall>q. exclude_glob rq = Some q \<longrightarrow> \<not> glob ext q p)}"
  proof
    assume "effective_principals ext ids rq = Inr ps"
    then have p1: "ps = ?ps" and p2: "ps \<noteq> []"
      by (auto simp: effective_principals_def Let_def split: if_splits)
    show "ps \<noteq> [] \<and> ps = ?ps \<and> set ps \<subseteq> (\<Union>i \<in> set ids. set (principals i))
      \<and> set ps = {p \<in> set (merged_principals ext ids).
                    (\<forall>q. include_glob rq = Some q \<longrightarrow> glob ext q p)
                    \<and> (\<forall>q. exclude_glob rq = Some q \<longrightarrow> \<not> glob ext q p)}"
    proof (intro conjI)
      show "ps \<noteq> []" by (rule p2)
      show "ps = ?ps" by (rule p1)
      show "set ps \<subseteq> (\<Union>i \<in> set ids. set (principals i))" unfolding p1 by (rule sub)
      show "set ps = {p \<in> set (merged_principals ext ids).
                    (\<forall>q. include_glob rq = Some q \<longrightarrow> glob ext q p)
                    \<and> (\<forall>q. exclude_glob rq = Some q \<longrightarrow> \<not> glob ext q p)}"
        unfolding p1 by (rule eq)
    qed
  qed
  have b: "include_glob rq = None \<and> exclude_glob rq = None \<and> merged_principals ext ids \<noteq> [] \<longrightarrow>
      effective_principals ext ids rq = Inr (merged_principals ext ids)"
    by (simp add: effective_principals_def filters_none)
  have c: "?ps = [] \<longrightarrow>
      effective_principals ext ids rq = Inl NoEligiblePrincipals
      \<and> (find_session srv now sid = Inr c \<and> certificate c = None \<and> stage c = Ready
           \<and> ids = identities c \<and> lifetime_of pol rq = Inr lt \<longrightarrow>
          get_cert pol ext now sid rq srv = (Failed NoEligiblePrincipals, srv))"
  proof
    assume e: "?ps = []"
    then have f: "effective_principals ext ids rq = Inl NoEligiblePrincipals"
      by (simp add: effective_principals_def)
    then show "effective_principals ext ids rq = Inl NoEligiblePrincipals
      \<and> (find_session srv now sid = Inr c \<and> certificate c = None \<and> stage c = Ready
           \<and> ids = identities c \<and> lifetime_of pol rq = Inr lt \<longrightarrow>
          get_cert pol ext now sid rq srv = (Failed NoEligiblePrincipals, srv))"
      using get_cert_no_principals [of srv now sid c pol rq lt ext NoEligiblePrincipals]
      by auto
  qed
  show ?thesis by (rule conjI [OF a conjI [OF b c]])
qed

theorem effective_principals_filtered_witness:
  "effective_principals demo s1_identities (s1_request (Some ''d*'')) = Inr [''dev'']
   \<and> effective_principals demo s1_identities (s1_request None) = Inr [''alice'', ''ops'', ''dev'']
   \<and> effective_principals demo s1_identities (s1_request (Some ''z*'')) =
        Inl NoEligiblePrincipals"
proof -
  have m: "merged_principals demo s1_identities = [''alice'', ''ops'', ''dev'']"
    by (simp add: merged_principals_def s1_identities_def demo_def)
  have g: "glob demo = star_glob" by (simp add: demo_def)
  have i1: "apply_exclude demo None (apply_include demo (Some ''d*'') [''alice'', ''ops'', ''dev''])
      = [''dev'']"
    by (simp add: apply_include_def apply_exclude_def g)
  have i2: "apply_exclude demo None (apply_include demo (Some ''z*'') [''alice'', ''ops'', ''dev''])
      = []"
    by (simp add: apply_include_def apply_exclude_def g)
  have r: "include_glob (s1_request inc) = inc" "exclude_glob (s1_request inc) = None" for inc
    by (simp_all add: s1_request_def)
  have a: "effective_principals demo s1_identities (s1_request (Some ''d*'')) = Inr [''dev'']"
    by (simp add: effective_principals_def m r i1)
  note t2 = effective_principals_filtered [of demo s1_identities "s1_request None"]
  note t3 = effective_principals_filtered [of demo s1_identities "s1_request (Some ''z*'')"]
  from t2 have b: "effective_principals demo s1_identities (s1_request None) =
      Inr [''alice'', ''ops'', ''dev'']"
    by (simp add: r m)
  from t3 have c: "effective_principals demo s1_identities (s1_request (Some ''z*'')) =
      Inl NoEligiblePrincipals"
    by (simp add: r m i2)
  from a b c show ?thesis by simp
qed

subsection \<open>The store invariant\<close>

lemma find_session_Inr:
  "find_session srv now sid = Inr c \<Longrightarrow> sessions srv sid = Some c \<and> now < expires_at c"
  by (auto simp: find_session_def split: option.splits if_splits)

lemma store_inv_update:
  "store_inv pol srv \<Longrightarrow> ctx_inv pol c \<Longrightarrow>
   sessions srv' = (sessions srv)(sid \<mapsto> c) \<Longrightarrow> store_inv pol srv'"
  by (auto simp: store_inv_def)

lemma store_inv_sub:
  "store_inv pol srv \<Longrightarrow> (\<And>sid c. sessions srv' sid = Some c \<Longrightarrow> sessions srv sid = Some c)
   \<Longrightarrow> store_inv pol srv'"
  by (auto simp: store_inv_def)

lemma store_inv_server0: "store_inv pol server0"
  by (simp add: store_inv_def server0_def)

lemma is_ready_required:
  assumes "is_ready pol c" and "set (completed c) = authenticator_id ` set (identities c)"
  shows "required_ids pol \<subseteq> set (completed c)"
proof
  fix x assume "x \<in> required_ids pol"
  then obtain a where a: "a \<in> set (authenticators pol)" "required a" "x = spec_id a"
    by (auto simp: required_ids_def)
  with assms(1) obtain i where "i \<in> set (identities c)" "authenticator_id i = spec_id a"
    unfolding is_ready_def by blast
  with a(3) assms(2) show "x \<in> set (completed c)" by force
qed

lemma store_inv_upd:
  "store_inv pol srv \<Longrightarrow> ctx_inv pol c \<Longrightarrow> sessions srv' = (sessions srv)(sid \<mapsto> c) \<Longrightarrow>
   store_inv pol srv'"
  by (simp add: store_inv_def)

lemma store_inv_create: "store_inv pol srv \<Longrightarrow> store_inv pol (snd (create_session pol now srv))"
proof -
  assume h: "store_inv pol srv"
  have "ctx_inv pol \<lparr>ctx_id = next_id srv, created_at = now, expires_at = now + ttl pol,
      completed = [], pending = map spec_id (authenticators pol), identities = [],
      pubkey = None, certificate = None, stage = Created\<rparr>"
    by (simp add: ctx_inv_def)
  then show ?thesis
    by (intro store_inv_upd [OF h]) (simp_all add: create_session_def Let_def)
qed

lemma store_inv_provide:
  assumes "store_inv pol srv"
  shows "store_inv pol (snd (provide_pubkey now sid pk srv))"
proof (cases "find_session srv now sid")
  case (Inl e)
  with assms show ?thesis by (simp add: provide_pubkey_def)
next
  case (Inr c)
  then have "sessions srv sid = Some c" by (simp add: find_session_Inr)
  with assms have "ctx_inv pol c" by (auto simp: store_inv_def)
  then have "ctx_inv pol (c\<lparr>pubkey := Some pk, stage := AwaitAuth\<rparr>)"
    by (auto simp: ctx_inv_def)
  then have "store_inv pol
      (srv\<lparr>sessions := (sessions srv)(sid \<mapsto> c\<lparr>pubkey := Some pk, stage := AwaitAuth\<rparr>)\<rparr>)"
    by (intro store_inv_upd [OF assms]) simp_all
  with assms Inr show ?thesis by (simp add: provide_pubkey_def)
qed

lemma store_inv_authenticate:
  assumes "store_inv pol srv"
  shows "store_inv pol (snd (authenticate pol ext now sid a cr srv))"
proof (cases "find_session srv now sid")
  case (Inl e)
  with assms show ?thesis by (simp add: authenticate_def)
next
  case (Inr c)
  then have c: "sessions srv sid = Some c" by (simp add: find_session_Inr)
  with assms have inv: "ctx_inv pol c" by (auto simp: store_inv_def)
  show ?thesis
  proof (cases "backend ext a sid cr")
    case (Authenticated idn)
    let ?c1 = "c\<lparr>completed := List.insert a (completed c),
                  pending := removeAll a (pending c),
                  identities := identities c @ [idn\<lparr>authenticator_id := a, confirmed_at := now\<rparr>]\<rparr>"
    let ?c2 = "if is_ready pol ?c1 then ?c1\<lparr>stage := Ready\<rparr> else ?c1"
    have base: "set (completed ?c1) = authenticator_id ` set (identities ?c1)"
      "set (pending ?c1) \<inter> set (completed ?c1) = {}"
      using inv by (auto simp: ctx_inv_def)
    have grow: "stage c = Ready \<or> stage c = Signed \<Longrightarrow> required_ids pol \<subseteq> set (completed ?c1)"
      using inv by (auto simp: ctx_inv_def)
    have "ctx_inv pol ?c2"
    proof (cases "is_ready pol ?c1")
      case True
      from is_ready_required [OF True base(1)] base show ?thesis
        using True by (simp add: ctx_inv_def)
    next
      case False
      with base grow show ?thesis by (simp add: ctx_inv_def)
    qed
    then have "store_inv pol (srv\<lparr>sessions := (sessions srv)(sid \<mapsto> ?c2)\<rparr>)"
      by (intro store_inv_upd [OF assms]) simp_all
    with assms show ?thesis
      using Inr Authenticated by (simp add: authenticate_def Let_def)
  qed (use assms Inr in \<open>simp_all add: authenticate_def\<close>)
qed

lemma get_cert_cases:
  "snd (get_cert pol ext now sid rq srv) = srv
   \<or> (\<exists>c cert. find_session srv now sid = Inr c \<and> certificate c = None \<and> stage c = Ready
        \<and> fst (get_cert pol ext now sid rq srv) = Cert cert
        \<and> snd (get_cert pol ext now sid rq srv) =
            srv\<lparr>sessions := (sessions srv)(sid \<mapsto> c\<lparr>certificate := Some cert, stage := Signed\<rparr>),
                issued := issued srv @ [(sid, cert)]\<rparr>)"
  by (simp add: get_cert_def split: sum.splits option.splits)

lemma store_inv_get_cert:
  assumes "store_inv pol srv"
  shows "store_inv pol (snd (get_cert pol ext now sid rq srv))"
  using get_cert_cases [of pol ext now sid rq srv]
proof (elim disjE exE conjE)
  assume "snd (get_cert pol ext now sid rq srv) = srv"
  with assms show ?thesis by simp
next
  fix c cert
  assume f: "find_session srv now sid = Inr c" and r: "stage c = Ready"
    and s: "snd (get_cert pol ext now sid rq srv) =
            srv\<lparr>sessions := (sessions srv)(sid \<mapsto> c\<lparr>certificate := Some cert, stage := Signed\<rparr>),
                issued := issued srv @ [(sid, cert)]\<rparr>"
  from f have "sessions srv sid = Some c" by (simp add: find_session_Inr)
  with assms have "ctx_inv pol c" by (auto simp: store_inv_def)
  with r have "ctx_inv pol (c\<lparr>certificate := Some cert, stage := Signed\<rparr>)"
    by (auto simp: ctx_inv_def)
  then show ?thesis unfolding s
    by (intro store_inv_upd [OF assms]) simp_all
qed

lemma store_inv_logout: "store_inv pol srv \<Longrightarrow> store_inv pol (snd (logout now sid srv))"
  by (auto simp: logout_def store_inv_def split: sum.splits if_splits)

lemma store_inv_reap: "store_inv pol srv \<Longrightarrow> store_inv pol (reap now srv)"
  by (auto simp: reap_def store_inv_def split: option.splits if_splits)

lemma store_inv_seal:
  "store_inv pol srv \<Longrightarrow> store_inv pol (snd (unseal ext secret srv))"
  "store_inv pol srv \<Longrightarrow> store_inv pol (snd (seal srv))"
  by (auto simp: unseal_def seal_def store_inv_def)

lemma store_inv_serve: "store_inv pol srv \<Longrightarrow> store_inv pol (snd (serve pol ext ev srv))"
proof -
  assume h: "store_inv pol srv"
  obtain now rq where ev: "ev = (now, rq)" by (cases ev)
  show ?thesis unfolding ev
    by (cases rq)
       (simp_all add: h store_inv_create store_inv_provide store_inv_authenticate
          store_inv_get_cert store_inv_logout store_inv_reap store_inv_seal)
qed

lemma store_inv_run: "store_inv pol srv \<Longrightarrow> store_inv pol (run pol ext evs srv)"
  by (induction evs arbitrary: srv) (simp_all add: store_inv_serve)

subsection \<open>Ready sessions and the cert-reauth backend\<close>

lemmas demo_eval =
  create_session_def provide_pubkey_def authenticate_def find_session_def is_ready_def
  demo_policy_def mixed_policy_def demo_def demo_backend_def auth_spec_def server0_def Let_def

lemma s1_run:
  "sessions (run demo_policy demo s1_events server0) 0 =
     Some \<lparr>ctx_id = 0, created_at = 0, expires_at = 300, completed = [''oidc'', ''pw''],
           pending = [],
           identities =
             [\<lparr>subject = ''alice'', principals = [''alice'', ''dev''], claims = [],
               authenticator_id = ''pw'', confirmed_at = 10\<rparr>,
              \<lparr>subject = ''alice'', principals = [''alice'', ''ops'', ''dev''],
               claims = [(''issuer'', ''idp'')], authenticator_id = ''oidc'', confirmed_at = 20\<rparr>],
           pubkey = Some ''ssh-ed25519 AAAA'', certificate = None, stage = Ready\<rparr>"
  by (simp add: s1_events_def demo_eval)


lemma ready_invariant:
  assumes "sessions (run pol ext evs server0) sid = Some c" and "stage c = Ready"
  shows "set (completed c) = authenticator_id ` set (identities c)
    \<and> required_ids pol \<subseteq> set (completed c)"
proof -
  have "store_inv pol (run pol ext evs server0)"
    by (intro store_inv_run store_inv_server0)
  with assms(1) have "ctx_inv pol c" by (auto simp: store_inv_def)
  with assms(2) show ?thesis by (auto simp: ctx_inv_def)
qed

text \<open>
  Claim C6.  In every state the server reaches from its initial state, by any requests at
  any times, a session that is Ready has, for every authenticator the policy requires, an
  identity of that authenticator and the authenticator among its completed ones.
\<close>

theorem ready_has_required_completed:
  assumes "sessions (run pol ext evs server0) sid = Some c" and "stage c = Ready"
    and "a \<in> set (authenticators pol)" and "required a"
  shows "(\<exists>i \<in> set (identities c). authenticator_id i = spec_id a)
    \<and> spec_id a \<in> set (completed c)"
proof -
  from assms(3,4) have "spec_id a \<in> required_ids pol" by (auto simp: required_ids_def)
  with ready_invariant [OF assms(1,2)]
  have "spec_id a \<in> set (completed c)"
    and "set (completed c) = authenticator_id ` set (identities c)" by auto
  then show ?thesis by force
qed

theorem ready_has_required_completed_witness:
  "sessions (run demo_policy demo s1_events server0) 0 \<noteq> None
   \<and> stage (the (sessions (run demo_policy demo s1_events server0) 0)) = Ready
   \<and> auth_spec ''oidc'' ''oidc'' True 2 \<in> set (authenticators demo_policy)
   \<and> required (auth_spec ''oidc'' ''oidc'' True 2)
   \<and> (\<exists>i \<in> set (identities (the (sessions (run demo_policy demo s1_events server0) 0))).
         authenticator_id i = ''oidc'')
   \<and> ''oidc'' \<in> set (completed (the (sessions (run demo_policy demo s1_events server0) 0)))"
proof -
  have a: "auth_spec ''oidc'' ''oidc'' True 2 \<in> set (authenticators demo_policy)"
    by (simp add: demo_policy_def)
  have r: "required (auth_spec ''oidc'' ''oidc'' True 2)" by (simp add: auth_spec_def)
  have i: "spec_id (auth_spec ''oidc'' ''oidc'' True 2) = ''oidc''" by (simp add: auth_spec_def)
  note t = ready_has_required_completed [OF s1_run _ a r, unfolded i]
  from t a r show ?thesis by (simp add: s1_run)
qed

lemma sole_required_reauth_denied:
  "sole_required_reauth pol \<Longrightarrow> validate_config pol = Inl PolicyDenied \<and> startup pol = Inl PolicyDenied"
  by (simp add: validate_config_def startup_def)

lemma startup_Inr: "startup pol = Inr srv0 \<Longrightarrow> srv0 = server0 \<and> \<not> sole_required_reauth pol"
  by (auto simp: startup_def validate_config_def split: if_splits)

text \<open>
  Claim C7.  A configuration whose required authenticators are all of the cert-reauth
  type is rejected at start-up with PolicyDenied.  And when start-up accepts the
  configuration, a reachable Ready session that has completed a required cert-reauth
  authenticator has also completed a required authenticator of another type.
\<close>

theorem reauth_not_sole_required:
  "(sole_required_reauth pol \<longrightarrow>
      validate_config pol = Inl PolicyDenied \<and> startup pol = Inl PolicyDenied)
   \<and> (startup pol = Inr srv0 \<and> sessions (run pol ext evs srv0) sid = Some c \<and> stage c = Ready
        \<and> a \<in> set (authenticators pol) \<and> required a \<and> spec_type a = ''cert-reauth''
        \<and> spec_id a \<in> set (completed c) \<longrightarrow>
      (\<exists>b \<in> set (authenticators pol).
          required b \<and> spec_type b \<noteq> ''cert-reauth'' \<and> spec_id b \<in> set (completed c)))"
proof (intro conjI impI)
  assume "sole_required_reauth pol"
  then show "validate_config pol = Inl PolicyDenied" "startup pol = Inl PolicyDenied"
    by (simp_all add: sole_required_reauth_denied)
next
  assume h: "startup pol = Inr srv0 \<and> sessions (run pol ext evs srv0) sid = Some c \<and> stage c = Ready
        \<and> a \<in> set (authenticators pol) \<and> required a \<and> spec_type a = ''cert-reauth''
        \<and> spec_id a \<in> set (completed c)"
  then have s0: "srv0 = server0" and ns: "\<not> sole_required_reauth pol"
    using startup_Inr by blast+
  from h have "a \<in> set (filter required (authenticators pol))" by simp
  with ns obtain b where b: "b \<in> set (authenticators pol)" "required b"
      "spec_type b \<noteq> ''cert-reauth''"
    unfolding sole_required_reauth_def Let_def by fastforce
  then have "spec_id b \<in> required_ids pol" by (auto simp: required_ids_def)
  moreover from h s0 have "required_ids pol \<subseteq> set (completed c)"
    using ready_invariant [of pol ext evs sid c] by blast
  ultimately show "\<exists>b \<in> set (authenticators pol).
          required b \<and> spec_type b \<noteq> ''cert-reauth'' \<and> spec_id b \<in> set (completed c)"
    using b by blast
qed

lemma mixed_run:
  "sessions (run mixed_policy demo mixed_events server0) 0 =
     Some \<lparr>ctx_id = 0, created_at = 0, expires_at = 300, completed = [''pw'', ''reauth''],
           pending = [],
           identities =
             [\<lparr>subject = ''alice'', principals = [''alice''], claims = [],
               authenticator_id = ''reauth'', confirmed_at = 10\<rparr>,
              \<lparr>subject = ''alice'', principals = [''alice'', ''dev''], claims = [],
               authenticator_id = ''pw'', confirmed_at = 20\<rparr>],
           pubkey = Some ''ssh-ed25519 AAAA'', certificate = None, stage = Ready\<rparr>"
  by (simp add: mixed_events_def demo_eval)

theorem reauth_not_sole_required_witness:
  "sole_required_reauth reauth_only_policy
   \<and> validate_config reauth_only_policy = Inl PolicyDenied
   \<and> startup reauth_only_policy = Inl PolicyDenied
   \<and> startup mixed_policy = Inr server0
   \<and> stage (the (sessions (run mixed_policy demo mixed_events server0) 0)) = Ready
   \<and> (\<exists>b \<in> set (authenticators mixed_policy).
         required b \<and> spec_type b \<noteq> ''cert-reauth''
         \<and> spec_id b \<in> set (completed (the (sessions (run mixed_policy demo mixed_events server0) 0))))"
proof -
  have s: "sole_required_reauth reauth_only_policy"
    by (simp add: sole_required_reauth_def reauth_only_policy_def auth_spec_def)
  have m: "startup mixed_policy = Inr server0"
    by (simp add: startup_def validate_config_def sole_required_reauth_def mixed_policy_def
        auth_spec_def)
  have a: "auth_spec ''reauth'' ''cert-reauth'' True 1 \<in> set (authenticators mixed_policy)"
    "required (auth_spec ''reauth'' ''cert-reauth'' True 1)"
    "spec_type (auth_spec ''reauth'' ''cert-reauth'' True 1) = ''cert-reauth''"
    "spec_id (auth_spec ''reauth'' ''cert-reauth'' True 1) = ''reauth''"
    by (simp_all add: mixed_policy_def auth_spec_def)
  note t1 = reauth_not_sole_required [of reauth_only_policy]
  note t2 = reauth_not_sole_required [of mixed_policy server0 demo mixed_events 0
      "the (sessions (run mixed_policy demo mixed_events server0) 0)"
      "auth_spec ''reauth'' ''cert-reauth'' True 1"]
  from t1 s have d: "validate_config reauth_only_policy = Inl PolicyDenied"
      "startup reauth_only_policy = Inl PolicyDenied" by blast+
  from t2 m a have e: "\<exists>b \<in> set (authenticators mixed_policy).
         required b \<and> spec_type b \<noteq> ''cert-reauth''
         \<and> spec_id b \<in> set (completed (the (sessions (run mixed_policy demo mixed_events server0) 0)))"
    by (simp add: mixed_run)
  from s d m e show ?thesis by (simp add: mixed_run)
qed

end
